theory Spec2Isabelle
  imports Main "HOL-Library.AList"
begin

unbundle bit_operations_syntax

section \<open>Python values used by the validator\<close>

text \<open>
  The CSV validator is a Python program built on the \<^verbatim>\<open>csv\<close> reader, on
  \<^verbatim>\<open>ipaddress\<close> and on pydantic. Python strings are modelled as \<^typ>\<open>string\<close>; the
  text is taken to be ASCII, one \<^typ>\<open>char\<close> per code point, and Python's unbounded
  integers are \<^typ>\<open>int\<close>. A function that raises returns a sum, \<open>Inl\<close> the exception
  with the message the source formats. \<open>value_error\<close> is \<^verbatim>\<open>ValueError\<close> (and its
  subclasses in \<^verbatim>\<open>ipaddress\<close>), the only exception the helpers raise; \<open>py_exc\<close> lists
  the exceptions met in the command-line workflow.
\<close>

datatype value_error = ValueError string

datatype py_exc =
    TypeError
  | KeyError string
  | RuntimeError string

text \<open>
  The values that flow through a field's validators: \<^verbatim>\<open>None\<close>, a \<^verbatim>\<open>str\<close>, or a
  \<^verbatim>\<open>set\<close> of \<^verbatim>\<open>str\<close>. \<open>truthy\<close> is the truth value Python's \<^verbatim>\<open>if v:\<close> gives them.
\<close>

datatype pyval = VNone | VStr string | VSet "string list"

fun truthy :: "pyval \<Rightarrow> bool" where
  "truthy VNone = False"
| "truthy (VStr s) = (s \<noteq> [])"
| "truthy (VSet xs) = (xs \<noteq> [])"

subsection \<open>String methods\<close>

text \<open>\<^verbatim>\<open>str.isspace\<close> on an ASCII character: TAB to CR, FS to US, and the space.\<close>

definition py_isspace :: "char \<Rightarrow> bool" where
  "py_isspace c = (let n = (of_char c :: nat) in (9 \<le> n \<and> n \<le> 13) \<or> (28 \<le> n \<and> n \<le> 32))"

text \<open>\<^verbatim>\<open>s.strip()\<close>: whitespace removed at both ends.\<close>

definition strip :: "string \<Rightarrow> string" where
  "strip s = rev (dropWhile py_isspace (rev (dropWhile py_isspace s)))"

text \<open>\<^verbatim>\<open>s.split(sep)\<close> for a one-character separator: never an empty list,
  \<^verbatim>\<open>''.split(',') == ['']\<close>.\<close>

fun split :: "char \<Rightarrow> string \<Rightarrow> string list" where
  "split sep [] = [[]]"
| "split sep (c # cs) =
     (if c = sep then [] # split sep cs
      else (case split sep cs of
              [] \<Rightarrow> [[c]]
            | t # ts \<Rightarrow> (c # t) # ts))"

text \<open>\<^verbatim>\<open>sep.join(xs)\<close>.\<close>

fun join :: "string \<Rightarrow> string list \<Rightarrow> string" where
  "join sep [] = []"
| "join sep [x] = x"
| "join sep (x # y # ys) = x @ sep @ join sep (y # ys)"

text \<open>
  A Python \<^verbatim>\<open>set\<close> of strings is kept as the list of its distinct members. CPython
  iterates a set in hash order, which the language leaves open; \<open>py_set\<close> takes the
  order \<^const>\<open>remdups\<close> gives, and statements about such a value speak of its
  \<^const>\<open>set\<close> only.
\<close>

definition py_set :: "string list \<Rightarrow> string list" where
  "py_set xs = remdups xs"

text \<open>\<^verbatim>\<open>repr\<close> of a string that holds no quote, backslash or control character.\<close>

definition py_repr :: "string \<Rightarrow> string" where
  "py_repr s = [CHR 0x27] @ s @ [CHR 0x27]"

text \<open>\<^verbatim>\<open>s.isascii() and s.isdigit()\<close>: false on the empty string.\<close>

definition isdigit :: "char \<Rightarrow> bool" where
  "isdigit c = (let n = (of_char c :: nat) in 48 \<le> n \<and> n \<le> 57)"

definition isascii_isdigit :: "string \<Rightarrow> bool" where
  "isascii_isdigit s = (s \<noteq> [] \<and> list_all isdigit s)"

text \<open>\<^verbatim>\<open>int(s, 10)\<close> on a string of decimal digits, and \<^verbatim>\<open>'%d' % n\<close> for \<open>n \<ge> 0\<close>.\<close>

definition py_int :: "string \<Rightarrow> int" where
  "py_int s = foldl (\<lambda>a c. 10 * a + (of_char c - 48)) 0 s"

function py_str_int :: "int \<Rightarrow> string" where
  "py_str_int n =
     (if n < 10 then [''0123456789'' ! nat n]
      else py_str_int (n div 10) @ [''0123456789'' ! nat (n mod 10)])"
  by pat_completeness auto
termination
  by (relation "measure (\<lambda>n. nat n)") auto

subsection \<open>The standard library's \<^verbatim>\<open>ipaddress.IPv4Network\<close>\<close>

text \<open>
  \<^verbatim>\<open>validate_ipv4_address\<close> rests on \<^verbatim>\<open>ipaddress.IPv4Network(ip, strict=False)\<close> of
  CPython 3.12, whose parsing is transcribed here function by function. An
  \<^verbatim>\<open>AddressValueError\<close> or \<^verbatim>\<open>NetmaskValueError\<close> (both \<^verbatim>\<open>ValueError\<close>s) is \<open>Inl\<close> of its
  message. The network is returned as the pair of its address (an integer) and its
  prefix length.
\<close>

definition parse_octet :: "string \<Rightarrow> string + int" where
  "parse_octet octet_str =
     (if octet_str = [] then Inl ''Empty octet not permitted''
      else if \<not> isascii_isdigit octet_str
        then Inl (''Only decimal digits permitted in '' @ py_repr octet_str)
      else if length octet_str > 3
        then Inl (''At most 3 characters permitted in '' @ py_repr octet_str)
      else if octet_str \<noteq> ''0'' \<and> hd octet_str = CHR ''0''
        then Inl (''Leading zeros are not permitted in '' @ py_repr octet_str)
      else if py_int octet_str > 255
        then Inl (''Octet '' @ py_str_int (py_int octet_str) @ '' (> 255) not permitted'')
      else Inr (py_int octet_str))"

text \<open>\<^verbatim>\<open>int.from_bytes(map(cls._parse_octet, octets), 'big')\<close>: the first octet that
  does not parse raises.\<close>

fun from_bytes_big :: "string list \<Rightarrow> int \<Rightarrow> string + int" where
  "from_bytes_big [] acc = Inr acc"
| "from_bytes_big (b # bs) acc =
     (case parse_octet b of
        Inl e \<Rightarrow> Inl e
      | Inr v \<Rightarrow> from_bytes_big bs (256 * acc + v))"

definition ip_int_from_string :: "string \<Rightarrow> string + int" where
  "ip_int_from_string ip_str =
     (if ip_str = [] then Inl ''Address cannot be empty''
      else let octets = split (CHR ''.'') ip_str in
        if length octets \<noteq> 4 then Inl (''Expected 4 octets in '' @ py_repr ip_str)
        else (case from_bytes_big octets 0 of
                Inl exc \<Rightarrow> Inl (exc @ '' in '' @ py_repr ip_str)
              | Inr v \<Rightarrow> Inr v))"

text \<open>\<^verbatim>\<open>_count_righthand_zero_bits(number, bits)\<close>: \<open>bits\<close> when the number is zero,
  else the number of its trailing zero bits, at most \<open>bits\<close>.\<close>

fun count_righthand_zero_bits :: "int \<Rightarrow> nat \<Rightarrow> nat" where
  "count_righthand_zero_bits number 0 = 0"
| "count_righthand_zero_bits number (Suc bits) =
     (if odd number then 0 else Suc (count_righthand_zero_bits (number div 2) bits))"

definition max_prefixlen :: nat where
  "max_prefixlen = 32"

definition ALL_ONES :: int where
  "ALL_ONES = 2 ^ 32 - 1"

text \<open>\<^verbatim>\<open>_prefix_from_ip_int\<close>; \<open>None\<close> is its \<^verbatim>\<open>ValueError\<close> (the mask mixes zeroes
  and ones), which every caller catches.\<close>

definition prefix_from_ip_int :: "int \<Rightarrow> nat option" where
  "prefix_from_ip_int ip_int =
     (let trailing_zeroes = count_righthand_zero_bits ip_int max_prefixlen;
          prefixlen = max_prefixlen - trailing_zeroes;
          leading_ones = drop_bit trailing_zeroes ip_int;
          all_ones = 2 ^ prefixlen - 1
      in if leading_ones \<noteq> all_ones then None else Some prefixlen)"

text \<open>\<^verbatim>\<open>_prefix_from_prefix_string\<close> and \<^verbatim>\<open>_prefix_from_ip_string\<close>; \<open>None\<close> is
  \<^verbatim>\<open>_report_invalid_netmask\<close>.\<close>

definition prefix_from_prefix_string :: "string \<Rightarrow> nat option" where
  "prefix_from_prefix_string prefixlen_str =
     (if \<not> isascii_isdigit prefixlen_str then None
      else if \<not> py_int prefixlen_str \<le> int max_prefixlen then None
      else Some (nat (py_int prefixlen_str)))"

definition prefix_from_ip_string :: "string \<Rightarrow> nat option" where
  "prefix_from_ip_string ip_str =
     (case ip_int_from_string ip_str of
        Inl e \<Rightarrow> None
      | Inr ip_int \<Rightarrow>
          (case prefix_from_ip_int ip_int of
             Some p \<Rightarrow> Some p
           | None \<Rightarrow> prefix_from_ip_int (ip_int XOR ALL_ONES)))"

definition ip_int_from_prefix :: "nat \<Rightarrow> int" where
  "ip_int_from_prefix prefixlen = ALL_ONES XOR (drop_bit prefixlen ALL_ONES)"

text \<open>\<^verbatim>\<open>_make_netmask(arg)\<close>: \<open>arg\<close> is the text after the slash, or \<open>None\<close> when
  there is no slash (the source then passes the integer 32).\<close>

definition make_netmask :: "string option \<Rightarrow> string + (int \<times> nat)" where
  "make_netmask arg =
     (case arg of
        None \<Rightarrow> Inr (ip_int_from_prefix max_prefixlen, max_prefixlen)
      | Some s \<Rightarrow>
          (case (case prefix_from_prefix_string s of
                   Some p \<Rightarrow> Some p
                 | None \<Rightarrow> prefix_from_ip_string s) of
             None \<Rightarrow> Inl (py_repr s @ '' is not a valid netmask'')
           | Some prefixlen \<Rightarrow> Inr (ip_int_from_prefix prefixlen, prefixlen)))"

text \<open>\<^verbatim>\<open>IPv4Network(address, strict=False)\<close>: host bits are masked off, not
  refused.\<close>

definition IPv4Network :: "string \<Rightarrow> string + (int \<times> nat)" where
  "IPv4Network address =
     (let addr = split (CHR ''/'') address in
      if length addr > 2
        then Inl (''Only one '' @ py_repr ''/'' @ '' permitted in '' @ py_repr address)
      else (case ip_int_from_string (hd addr) of
              Inl e \<Rightarrow> Inl e
            | Inr packed \<Rightarrow>
                (case make_netmask (if length addr > 1 then Some (addr ! 1) else None) of
                   Inl e \<Rightarrow> Inl e
                 | Inr (netmask, prefixlen) \<Rightarrow> Inr (packed AND netmask, prefixlen))))"

section \<open>helpers.py\<close>

subsection \<open>The uniqueness validator\<close>

text \<open>
  \<^verbatim>\<open>unique()\<close> allocates \<^verbatim>\<open>seen = set()\<close> and returns the closure \<^verbatim>\<open>nested\<close> over it.
  The closure's captured set is the state: \<open>unique\<close> is its initial value, and \<open>nested\<close>
  takes the set and returns it with its result. The first argument of \<open>nested\<close> is the
  f-string's rendering of the value (\<^verbatim>\<open>{v}\<close>), the identity for a \<^verbatim>\<open>str\<close>. A raise
  before \<^verbatim>\<open>seen.add(v)\<close> leaves the set as it was.
\<close>

definition unique :: "'a set" where
  "unique = {}"

definition nested :: "('a \<Rightarrow> string) \<Rightarrow> 'a set \<Rightarrow> 'a \<Rightarrow> (value_error + 'a) \<times> 'a set" where
  "nested fmt seen v =
     (if v \<in> seen then (Inl (ValueError (''Value \"'' @ fmt v @ '' is not unique'')), seen)
      else (Inr v, insert v seen))"

subsection \<open>Coercions\<close>

text \<open>
  A cell of a CSV row is a \<^verbatim>\<open>str\<close>, or \<^verbatim>\<open>None\<close> where the row is shorter than the
  header. \<^verbatim>\<open>coerce_splt_commas_rtn_set_strs\<close> is the first validator to see the cell;
  \<^verbatim>\<open>if s:\<close> is false for \<^verbatim>\<open>None\<close> and for the empty string. The filter \<^verbatim>\<open>if e\<close>
  tests the token before it is stripped.
\<close>

type_synonym cell = "string option"

definition coerce_splt_commas_rtn_set_strs :: "cell \<Rightarrow> pyval" where
  "coerce_splt_commas_rtn_set_strs s =
     (case s of
        None \<Rightarrow> VNone
      | Some x \<Rightarrow>
          if x \<noteq> []
          then VSet (py_set (map strip (filter (\<lambda>e. e \<noteq> []) (split (CHR '','') x))))
          else VNone)"

definition coerce_empty_str_to_none :: "pyval \<Rightarrow> pyval" where
  "coerce_empty_str_to_none s = (if truthy s then s else VNone)"

subsection \<open>IPv4 validation\<close>

definition validate_ipv4_address :: "string \<Rightarrow> bool \<Rightarrow> value_error + string" where
  "validate_ipv4_address ip is_mandatory =
     (if ip = [] \<and> \<not> is_mandatory then Inr ip
      else (case IPv4Network ip of
              Inl e \<Rightarrow> Inl (ValueError (''Invalid CIDR value: '' @ ip @ ''. Error: '' @ e))
            | Inr n \<Rightarrow> Inr ip))"

definition validate_cidr :: "string \<Rightarrow> value_error + string" where
  "validate_cidr ip = validate_ipv4_address ip True"

section \<open>pydantic\<close>

text \<open>
  The schema classes of the repository are pydantic models, and validating a row is
  the constructor call \<^verbatim>\<open>self._model(**row)\<close>. What pydantic (version 2) does for the
  annotations the repository uses is written out here: string constraints run in
  the order strip, length, lower-case; \<^verbatim>\<open>BeforeValidator\<close>s run from the last listed
  to the first, before the type's own validation, and an \<^verbatim>\<open>AfterValidator\<close> runs
  after it; a \<^verbatim>\<open>ValueError\<close> raised by a validator becomes one error with the message
  \<^verbatim>\<open>Value error, ...\<close>; a set is validated member by member and every failing member
  contributes its own error; all fields of a model are validated, the errors
  collected in field order, followed by one error per unexpected key when the model
  forbids extras.
\<close>

subsection \<open>String constraints\<close>

text \<open>Rust's \<^verbatim>\<open>char::is_whitespace\<close> on ASCII, \<^verbatim>\<open>str::trim\<close> and
  \<^verbatim>\<open>str::to_lowercase\<close>, which pydantic's string validator applies.\<close>

definition is_whitespace :: "char \<Rightarrow> bool" where
  "is_whitespace c = (let n = (of_char c :: nat) in (9 \<le> n \<and> n \<le> 13) \<or> n = 32)"

definition trim :: "string \<Rightarrow> string" where
  "trim s = rev (dropWhile is_whitespace (rev (dropWhile is_whitespace s)))"

definition to_lowercase :: "string \<Rightarrow> string" where
  "to_lowercase s =
     map (\<lambda>c. let n = (of_char c :: nat) in
               if 65 \<le> n \<and> n \<le> 90 then char_of (n + 32) else c) s"

subsection \<open>Errors and annotated types\<close>

text \<open>
  One entry of \<^verbatim>\<open>ValidationError.errors()\<close>: the head of \<^verbatim>\<open>loc\<close> (the field or key
  name), the rest of \<^verbatim>\<open>loc\<close> (the index of a set member), \<^verbatim>\<open>msg\<close> and \<^verbatim>\<open>input\<close>. The
  input is the cell, a member of a set, or the whole row for a missing field.
\<close>

datatype py_input = InCell cell | InItem string | InRow "(string \<times> cell) list"

datatype line_error = LineError (loc0: string) (loc_rest: "nat list") (msg: string) (input: py_input)

type_synonym field_error = "nat list \<times> string \<times> py_input"

text \<open>
  The annotated types: \<^verbatim>\<open>ClusterName\<close> and \<^verbatim>\<open>ClusterTags\<close> of \<^verbatim>\<open>model.py\<close>, plain
  \<^verbatim>\<open>str\<close>, \<^verbatim>\<open>IP\<close> of \<^verbatim>\<open>helpers.py\<close> and \<^verbatim>\<open>DNSServers\<close> of \<^verbatim>\<open>models/platform.py\<close>.
\<close>

datatype annotation = ClusterName | Str | ClusterTags | IP | DNSServers

definition string_type :: "cell \<Rightarrow> field_error list" where
  "string_type c = [([], ''Input should be a valid string'', InCell c)]"

text \<open>
  \<^verbatim>\<open>ClusterName\<close>: a strict \<^verbatim>\<open>str\<close>, stripped, of 1 to 30 characters, lower-cased, then
  \<^verbatim>\<open>AfterValidator(unique())\<close>, whose closure state is the set passed in and out.
\<close>

definition validate_ClusterName :: "string set \<Rightarrow> cell \<Rightarrow> (field_error list + pyval) \<times> string set" where
  "validate_ClusterName seen c =
     (case c of
        None \<Rightarrow> (Inl (string_type c), seen)
      | Some s \<Rightarrow>
          (let t = trim s in
           if length t < 1
             then (Inl [([], ''String should have at least 1 character'', InCell c)], seen)
           else if length t > 30
             then (Inl [([], ''String should have at most 30 characters'', InCell c)], seen)
           else (case nested (\<lambda>v. v) seen (to_lowercase t) of
                   (Inl (ValueError m), seen') \<Rightarrow>
                     (Inl [([], ''Value error, '' @ m, InCell c)], seen')
                 | (Inr v, seen') \<Rightarrow> (Inr (VStr v), seen'))))"

definition validate_Str :: "cell \<Rightarrow> field_error list + pyval" where
  "validate_Str c = (case c of None \<Rightarrow> Inl (string_type c) | Some s \<Rightarrow> Inr (VStr s))"

text \<open>\<^verbatim>\<open>IP = Annotated[str, AfterValidator(validate_ipv4_address)]\<close>.\<close>

definition validate_IP :: "cell \<Rightarrow> field_error list + pyval" where
  "validate_IP c =
     (case c of
        None \<Rightarrow> Inl (string_type c)
      | Some s \<Rightarrow>
          (case validate_ipv4_address s True of
             Inl (ValueError m) \<Rightarrow> Inl [([], ''Value error, '' @ m, InCell c)]
           | Inr v \<Rightarrow> Inr (VStr v)))"

text \<open>
  \<^verbatim>\<open>ClusterTags\<close>: \<^verbatim>\<open>coerce_splt_commas_rtn_set_strs\<close> runs first, then
  \<^verbatim>\<open>coerce_empty_str_to_none\<close>, then \<^verbatim>\<open>Optional[set[str]]\<close>, which accepts \<^verbatim>\<open>None\<close> and
  any set of strings.
\<close>

definition validate_ClusterTags :: "cell \<Rightarrow> field_error list + pyval" where
  "validate_ClusterTags c =
     (case coerce_empty_str_to_none (coerce_splt_commas_rtn_set_strs c) of
        VNone \<Rightarrow> Inr VNone
      | VSet xs \<Rightarrow> Inr (VSet (py_set xs))
      | VStr s \<Rightarrow> Inl [([], ''Input should be a valid set'', InCell c)])"

text \<open>
  \<^verbatim>\<open>DNSServers\<close>: the same coercions, then \<^verbatim>\<open>Optional[set[IP]]\<close>. The members are
  validated in iteration order; each failing member adds an error located at its
  index, and validation goes on with the next member.
\<close>

fun validate_set_IP :: "nat \<Rightarrow> string list \<Rightarrow> field_error list \<times> string list" where
  "validate_set_IP i [] = ([], [])"
| "validate_set_IP i (x # xs) =
     (let (errs, vals) = validate_set_IP (Suc i) xs in
      case validate_ipv4_address x True of
        Inl (ValueError m) \<Rightarrow> (([i], ''Value error, '' @ m, InItem x) # errs, vals)
      | Inr v \<Rightarrow> (errs, v # vals))"

definition validate_DNSServers :: "cell \<Rightarrow> field_error list + pyval" where
  "validate_DNSServers c =
     (case coerce_empty_str_to_none (coerce_splt_commas_rtn_set_strs c) of
        VNone \<Rightarrow> Inr VNone
      | VSet xs \<Rightarrow>
          (case validate_set_IP 0 xs of
             ([], vals) \<Rightarrow> Inr (VSet (py_set vals))
           | (e # es, vals) \<Rightarrow> Inl (e # es))
      | VStr s \<Rightarrow> Inl [([], ''Input should be a valid set'', InCell c)])"

fun validate_annotation :: "annotation \<Rightarrow> string set \<Rightarrow> cell \<Rightarrow> (field_error list + pyval) \<times> string set" where
  "validate_annotation ClusterName seen c = validate_ClusterName seen c"
| "validate_annotation Str seen c = (validate_Str c, seen)"
| "validate_annotation ClusterTags seen c = (validate_ClusterTags c, seen)"
| "validate_annotation IP seen c = (validate_IP c, seen)"
| "validate_annotation DNSServers seen c = (validate_DNSServers c, seen)"

subsection \<open>Models\<close>

text \<open>
  \<^verbatim>\<open>FieldInfo\<close>: the annotation and the default; \<^verbatim>\<open>is_required()\<close> holds when no default
  was given. A model has its fields in declaration order, its \<^verbatim>\<open>extra\<close> setting
  (\<^verbatim>\<open>'ignore'\<close> or \<^verbatim>\<open>'forbid'\<close>) and its field serializers.
\<close>

record field_info =
  annotation :: annotation
  default_value :: "pyval option"

definition is_required :: "field_info \<Rightarrow> bool" where
  "is_required f = (default_value f = None)"

datatype extra_behavior = ignore | forbid

datatype serializer = dump_set_of_vals_ser | dump_dns_ser

record model =
  model_fields :: "(string \<times> field_info) list"
  extra :: extra_behavior
  serializers :: "(string \<times> serializer) list"

text \<open>
  A row as \<^verbatim>\<open>csv.DictReader\<close> yields it: a dict from the header's names to cells, and,
  when the row has more cells than the header has names, the surplus cells under the
  key \<^verbatim>\<open>None\<close> (\<^verbatim>\<open>restkey\<close>). \<open>cols\<close> is read as a dict: \<^const>\<open>map_of\<close> looks a key up
  and \<open>dict_keys\<close> lists each key once.
\<close>

record row =
  cols :: "(string \<times> cell) list"
  restkey :: "string list option"

fun dict_keys :: "(string \<times> 'v) list \<Rightarrow> string list" where
  "dict_keys [] = []"
| "dict_keys ((k, v) # kvs) = k # filter (\<lambda>k'. k' \<noteq> k) (dict_keys kvs)"

text \<open>\<^verbatim>\<open>DictReader.__next__\<close> on the header's names and the cells of one line.\<close>

definition DictReader_row :: "string list \<Rightarrow> string list \<Rightarrow> row" where
  "DictReader_row fieldnames r =
     (let d = fold (\<lambda>(k, v) d. AList.update k (Some v) d) (zip fieldnames r) [];
          lf = length fieldnames;
          lr = length r
      in if lf < lr then \<lparr>cols = d, restkey = Some (drop lf r)\<rparr>
         else if lf > lr
           then \<lparr>cols = fold (\<lambda>k d. AList.update k None d) (drop lr fieldnames) d,
                 restkey = None\<rparr>
         else \<lparr>cols = d, restkey = None\<rparr>)"

text \<open>
  Validation of the fields in order. A key the row lacks takes the field's default,
  or is the error \<^verbatim>\<open>Field required\<close>. The closure state of \<^verbatim>\<open>ClusterName\<close> is threaded
  through.
\<close>

fun validate_fields ::
  "(string \<times> field_info) list \<Rightarrow> (string \<times> cell) list \<Rightarrow> string set \<Rightarrow>
     (line_error list \<times> (string \<times> pyval) list) \<times> string set" where
  "validate_fields [] d seen = (([], []), seen)"
| "validate_fields ((name, f) # fs) d seen =
     (case map_of d name of
        None \<Rightarrow>
          (let ((errs, vals), seen') = validate_fields fs d seen in
           case default_value f of
             None \<Rightarrow> ((LineError name [] ''Field required'' (InRow d) # errs, vals), seen')
           | Some v \<Rightarrow> ((errs, (name, v) # vals), seen'))
      | Some c \<Rightarrow>
          (case validate_annotation (annotation f) seen c of
             (Inl es, seen1) \<Rightarrow>
               (let ((errs, vals), seen') = validate_fields fs d seen1 in
                ((map (\<lambda>(l, m, i). LineError name l m i) es @ errs, vals), seen'))
           | (Inr v, seen1) \<Rightarrow>
               (let ((errs, vals), seen') = validate_fields fs d seen1 in
                ((errs, (name, v) # vals), seen'))))"

text \<open>The errors for the keys of the row that name no field, in the row's order.\<close>

definition extra_forbidden :: "(string \<times> field_info) list \<Rightarrow> (string \<times> cell) list \<Rightarrow> line_error list" where
  "extra_forbidden fs d =
     concat (map (\<lambda>k. case map_of d k of
                         None \<Rightarrow> []
                       | Some c \<Rightarrow> [LineError k [] ''Extra inputs are not permitted'' (InCell c)])
                 (filter (\<lambda>k. k \<notin> set (map fst fs)) (dict_keys d)))"

text \<open>
  \<^verbatim>\<open>self._model(**row)\<close>. A dict with the key \<^verbatim>\<open>None\<close> cannot be unpacked into keyword
  arguments: Python raises \<^verbatim>\<open>TypeError\<close> before pydantic is entered.
\<close>

datatype init_result =
    Raises_TypeError
  | Raises_ValidationError "line_error list"
  | Instance "(string \<times> pyval) list"

definition model_init :: "model \<Rightarrow> row \<Rightarrow> string set \<Rightarrow> init_result \<times> string set" where
  "model_init m r seen =
     (case restkey r of
        Some rest \<Rightarrow> (Raises_TypeError, seen)
      | None \<Rightarrow>
          (let ((errs, vals), seen') = validate_fields (model_fields m) (cols r) seen;
               errors = errs @ (if extra m = forbid then extra_forbidden (model_fields m) (cols r) else [])
           in if errors \<noteq> [] then (Raises_ValidationError errors, seen')
              else (Instance vals, seen')))"

section \<open>model.py and models/platform.py\<close>

text \<open>
  \<^verbatim>\<open>ClusterName\<close> is built once, when \<^verbatim>\<open>model.py\<close> is imported: \<^verbatim>\<open>unique()\<close> is called
  there, and every model of the process that has a \<^verbatim>\<open>ClusterName\<close> field shares the
  closure it returned. \<open>ClusterName_seen\<close> is the closure's state after the import.
\<close>

definition ClusterName_seen :: "string set" where
  "ClusterName_seen = unique"

definition BaseCluster :: model where
  "BaseCluster =
     \<lparr>model_fields =
        [(''cluster_name'', \<lparr>annotation = ClusterName, default_value = None\<rparr>),
         (''cluster_group'', \<lparr>annotation = Str, default_value = None\<rparr>),
         (''cluster_tags'', \<lparr>annotation = ClusterTags, default_value = None\<rparr>)],
      extra = forbid,
      serializers = [(''cluster_tags'', dump_set_of_vals_ser)]\<rparr>"

text \<open>\<^verbatim>\<open>BaseCluster.dump_set_of_vals\<close>; iterating a \<^verbatim>\<open>str\<close> yields its characters.\<close>

definition dump_set_of_vals :: "pyval \<Rightarrow> pyval" where
  "dump_set_of_vals vals =
     (if truthy vals
      then (case vals of
              VSet xs \<Rightarrow> VStr (join '','' xs)
            | VStr s \<Rightarrow> VStr (join '','' (map (\<lambda>c. [c]) s))
            | VNone \<Rightarrow> VStr [])
      else VStr [])"


definition dump_dns :: "pyval \<Rightarrow> pyval" where
  "dump_dns dns_servers =
     (if truthy dns_servers
      then (case dns_servers of
              VSet xs \<Rightarrow> VStr (join '','' xs)
            | VStr s \<Rightarrow> VStr (join '','' (map (\<lambda>c. [c]) s))
            | VNone \<Rightarrow> VNone)
      else VNone)"

fun serialize :: "serializer \<Rightarrow> pyval \<Rightarrow> pyval" where
  "serialize dump_set_of_vals_ser v = dump_set_of_vals v"
| "serialize dump_dns_ser v = dump_dns v"

text \<open>\<^verbatim>\<open>clus.model_dump()\<close>: each field's value, through its serializer when it has one.\<close>

definition model_dump :: "model \<Rightarrow> (string \<times> pyval) list \<Rightarrow> (string \<times> pyval) list" where
  "model_dump m inst =
     map (\<lambda>(n, v). (n, case map_of (serializers m) n of
                          None \<Rightarrow> v
                        | Some s \<Rightarrow> serialize s v)) inst"

section \<open>The command-line workflow of \<^verbatim>\<open>__main__.py\<close>\<close>

subsection \<open>Logging\<close>

text \<open>
  The workflow reports through a logger. A log record is kept as its level and the
  parts its format string is filled with, not as the rendered line;
  \<^verbatim>\<open>logger.exception\<close> logs at level \<^verbatim>\<open>ERROR\<close>. Every call to the logger is recorded,
  whatever level the verbosity option lets through. The file names in the messages
  are left out.

  \<^item> \<open>Row_validation_error n c col m i\<close> is
    \<^verbatim>\<open>Line {n}, {c}, column '{col}', error: '{m}', received '{i}'\<close>;
  \<^item> \<open>Row_TypeError n v\<close> is \<^verbatim>\<open>Line {n}, {v}, error: encountered Python TypeError, ...\<close>,
    \<open>v\<close> being \<^verbatim>\<open>row['cluster_name']\<close>;
  \<^item> \<open>CSV_parsing_error n\<close> is \<^verbatim>\<open>Encountered CSV parsing error, row {n}, ...\<close>.
\<close>

datatype level = DEBUG | INFO | WARNING | ERROR

datatype message =
    Loading_validator_module
  | Error_loading_validator
  | Error_accessing_SourceOfTruthModel
  | SourceOfTruthModel_is_not_a_class
  | Using_source_file
  | Error_opening_source_file
  | Missing_CSV_field_names
  | Optional_field_not_present string
  | Required_field_not_present string
  | Unicode_decoding_issues
  | Using_output_file
  | Error_opening_output_file
  | CSV_parsing_error nat
  | Reached_end_of_CSV
  | Processed_rows nat
  | Row_validation_error nat string string string py_input
  | Row_TypeError nat cell
  | CSV_is_invalid
  | Deleting_output
  | CSV_is_valid

type_synonym log_record = "level \<times> message"

subsection \<open>Loading the model\<close>

text \<open>What \<^verbatim>\<open>--validator-module\<close> leads to: no option given, a module that is not
  found, a module without \<^verbatim>\<open>SourceOfTruthModel\<close>, one whose \<^verbatim>\<open>SourceOfTruthModel\<close> is not
  a class, or a module with a model.\<close>

datatype validator_module =
    No_module
  | Module_not_found
  | No_SourceOfTruthModel
  | Not_a_class
  | Module model

definition load_model_dynamic :: "validator_module \<Rightarrow> (py_exc + model option) \<times> log_record list" where
  "load_model_dynamic vm =
     (case vm of
        No_module \<Rightarrow> (Inr None, [])
      | Module_not_found \<Rightarrow>
          (Inl (RuntimeError ''error loading module''),
           [(DEBUG, Loading_validator_module), (ERROR, Error_loading_validator)])
      | No_SourceOfTruthModel \<Rightarrow>
          (Inl (RuntimeError (''no attribute '' @ py_repr ''SourceOfTruthModel'')),
           [(DEBUG, Loading_validator_module), (ERROR, Error_accessing_SourceOfTruthModel)])
      | Not_a_class \<Rightarrow>
          (Inl (RuntimeError ''SourceOfTruthModel is not a class''),
           [(DEBUG, Loading_validator_module), (ERROR, SourceOfTruthModel_is_not_a_class)])
      | Module m \<Rightarrow> (Inr (Some m), [(DEBUG, Loading_validator_module)]))"

subsection \<open>Header validation\<close>

text \<open>
  Reading \<^verbatim>\<open>self._reader.fieldnames\<close> gives \<^verbatim>\<open>None\<close> for an empty file, the list of
  the first line's cells otherwise, or raises \<^verbatim>\<open>UnicodeDecodeError\<close>.
\<close>

datatype fieldnames_read = Fieldnames "string list option" | Raises_UnicodeDecodeError

text \<open>The \<^verbatim>\<open>for\<close> loop of \<^verbatim>\<open>_validate_csv_fields\<close> over \<^verbatim>\<open>model_fields.items()\<close>, with
  \<^verbatim>\<open>validation_error\<close> and the records logged so far.\<close>

fun fields_loop ::
  "(string \<times> field_info) list \<Rightarrow> string list \<Rightarrow> bool \<Rightarrow> log_record list \<Rightarrow> bool \<times> log_record list" where
  "fields_loop [] fieldnames validation_error lg = (validation_error, lg)"
| "fields_loop ((name, field) # fs) fieldnames validation_error lg =
     (if name \<notin> set fieldnames
      then (if \<not> is_required field
            then fields_loop fs fieldnames validation_error
                   (lg @ [(WARNING, Optional_field_not_present name)])
            else fields_loop fs fieldnames True
                   (lg @ [(ERROR, Required_field_not_present name)]))
      else fields_loop fs fieldnames validation_error lg)"

definition validate_csv_fields :: "model \<Rightarrow> fieldnames_read \<Rightarrow> (py_exc + bool) \<times> log_record list" where
  "validate_csv_fields m hdr =
     (case hdr of
        Raises_UnicodeDecodeError \<Rightarrow>
          (Inl (RuntimeError ''unicode decode error''), [(ERROR, Unicode_decoding_issues)])
      | Fieldnames None \<Rightarrow>
          (Inl (RuntimeError ''missing CSV field names''), [(ERROR, Missing_CSV_field_names)])
      | Fieldnames (Some fieldnames) \<Rightarrow>
          if fieldnames = []
          then (Inl (RuntimeError ''missing CSV field names''), [(ERROR, Missing_CSV_field_names)])
          else (case fields_loop (model_fields m) fieldnames False [] of
                  (validation_error, lg) \<Rightarrow> (Inr validation_error, lg)))"

subsection \<open>Row validation\<close>

text \<open>
  \<^verbatim>\<open>_validate_csv_row\<close>, with the reader's \<^verbatim>\<open>line_num\<close> for the row. The handler of
  \<^verbatim>\<open>ValidationError\<close> names the cluster through \<^verbatim>\<open>row.get('cluster_name')\<close>; the handler
  of \<^verbatim>\<open>TypeError\<close> subscripts \<^verbatim>\<open>row['cluster_name']\<close>, which raises \<^verbatim>\<open>KeyError\<close> when the
  row has no such key, and nothing catches it.
\<close>

definition cluster_descr :: "row \<Rightarrow> string" where
  "cluster_descr r =
     (case map_of (cols r) ''cluster_name'' of
        Some (Some s) \<Rightarrow> if s \<noteq> [] then ''cluster '' @ s else ''cluster name unknown''
      | Some None \<Rightarrow> ''cluster name unknown''
      | None \<Rightarrow> ''cluster name unknown'')"

definition validate_csv_row ::
  "model \<Rightarrow> nat \<Rightarrow> row \<Rightarrow> string set \<Rightarrow>
     ((py_exc + ((string \<times> pyval) list option \<times> bool)) \<times> log_record list) \<times> string set" where
  "validate_csv_row m line_num r seen =
     (case model_init m r seen of
        (Instance clus, seen') \<Rightarrow> ((Inr (Some clus, False), []), seen')
      | (Raises_ValidationError errs, seen') \<Rightarrow>
          ((Inr (None, True),
            map (\<lambda>pydantic_err.
                   (ERROR, Row_validation_error line_num (cluster_descr r) (loc0 pydantic_err)
                             (msg pydantic_err) (input pydantic_err))) errs),
           seen')
      | (Raises_TypeError, seen') \<Rightarrow>
          (case map_of (cols r) ''cluster_name'' of
             None \<Rightarrow> ((Inl (KeyError ''cluster_name''), []), seen')
           | Some v \<Rightarrow> ((Inr (None, True), [(ERROR, Row_TypeError line_num v)]), seen')))"

subsection \<open>The workflow\<close>

text \<open>
  What \<^verbatim>\<open>next(self._reader)\<close> gives, in order: a row with the reader's line number, or
  \<^verbatim>\<open>csv.Error\<close>; the end of the list is \<^verbatim>\<open>StopIteration\<close>. The loop's state is the
  \<^verbatim>\<open>error\<close> flag, the log, the closure state of \<^verbatim>\<open>ClusterName\<close> and the rows handed to
  the CSV writer.
\<close>

datatype row_event = Row nat row | Csv_Error nat

record run_state =
  st_error :: bool
  st_log :: "log_record list"
  st_seen :: "string set"
  st_written :: "(string \<times> pyval) list list"

fun rows_loop :: "model \<Rightarrow> bool \<Rightarrow> row_event list \<Rightarrow> run_state \<Rightarrow> py_exc option \<times> run_state" where
  "rows_loop m writer [] st = (None, st\<lparr>st_log := st_log st @ [(DEBUG, Reached_end_of_CSV)]\<rparr>)"
| "rows_loop m writer (Csv_Error n # evs) st =
     (None, st\<lparr>st_error := True, st_log := st_log st @ [(ERROR, CSV_parsing_error n)]\<rparr>)"
| "rows_loop m writer (Row n r # evs) st =
     (let progress = (if n mod 100 = 0 then [(INFO, Processed_rows n)] else []) in
      case validate_csv_row m n r (st_seen st) of
        ((Inl exc, lg), seen') \<Rightarrow>
          (Some exc, st\<lparr>st_log := st_log st @ progress @ lg, st_seen := seen'\<rparr>)
      | ((Inr (clus, row_error), lg), seen') \<Rightarrow>
          rows_loop m writer evs
            \<lparr>st_error = (if row_error then True else st_error st),
             st_log = st_log st @ progress @ lg,
             st_seen = seen',
             st_written =
               (if \<not> row_error \<and> writer
                then (case clus of
                        Some c \<Rightarrow> st_written st @ [model_dump m c]
                      | None \<Rightarrow> st_written st)
                else st_written st)\<rparr>)"

text \<open>\<^verbatim>\<open>_setup_csv_writer\<close>: whether \<^verbatim>\<open>--output\<close> was given, and whether the file opens.
  The result tells whether a writer was set up.\<close>

datatype output_file = No_output | Output_opens | Output_does_not_open

definition setup_csv_writer :: "output_file \<Rightarrow> (py_exc + bool) \<times> log_record list" where
  "setup_csv_writer out =
     (case out of
        No_output \<Rightarrow> (Inr False, [])
      | Output_opens \<Rightarrow> (Inr True, [(DEBUG, Using_output_file)])
      | Output_does_not_open \<Rightarrow>
          (Inl (RuntimeError ''error opening file for writing''),
           [(DEBUG, Using_output_file), (ERROR, Error_opening_output_file)]))"

text \<open>
  \<^verbatim>\<open>CLI.run\<close>. The arguments and the files are the record \<open>cli\<close>; the second argument
  is the closure state of \<^verbatim>\<open>ClusterName\<close> in the process when \<^verbatim>\<open>run\<close> is called. The
  result holds the value returned (the exit code) or the exception that escaped, the
  log, the closure state afterwards, and the output file left behind: its header and
  rows, or \<open>None\<close> when there is no file.
\<close>

record cli =
  validator_module :: validator_module
  source_opens :: bool
  header :: fieldnames_read
  lines :: "row_event list"
  outfile :: output_file

record run_result =
  returned :: "py_exc + int"
  logged :: "log_record list"
  seen_after :: "string set"
  out_file :: "(string list \<times> (string \<times> pyval) list list) option"

definition run :: "cli \<Rightarrow> string set \<Rightarrow> run_result" where
  "run c seen =
     (case load_model_dynamic (validator_module c) of
        (Inl e, lg0) \<Rightarrow>
          \<lparr>returned = Inr 1, logged = lg0, seen_after = seen, out_file = None\<rparr>
      | (Inr model, lg0) \<Rightarrow>
          (let m = (case model of Some m' \<Rightarrow> m' | None \<Rightarrow> BaseCluster);
               lg1 = lg0 @ [(DEBUG, Using_source_file)]
           in if \<not> source_opens c
              then \<lparr>returned = Inr 1, logged = lg1 @ [(ERROR, Error_opening_source_file)],
                     seen_after = seen, out_file = None\<rparr>
              else (case validate_csv_fields m (header c) of
                 (Inl e, lg2) \<Rightarrow>
                   \<lparr>returned = Inr 1, logged = lg1 @ lg2, seen_after = seen, out_file = None\<rparr>
               | (Inr error, lg2) \<Rightarrow>
                   (case setup_csv_writer (outfile c) of
                      (Inl e, lg3) \<Rightarrow>
                        \<lparr>returned = Inr 1, logged = lg1 @ lg2 @ lg3, seen_after = seen,
                          out_file = None\<rparr>
                    | (Inr writer, lg3) \<Rightarrow>
                        (case rows_loop m writer (lines c)
                                \<lparr>st_error = error, st_log = lg1 @ lg2 @ lg3, st_seen = seen,
                                  st_written = []\<rparr> of
                           (Some exc, st) \<Rightarrow>
                             \<lparr>returned = Inl exc, logged = st_log st, seen_after = st_seen st,
                               out_file = (if writer
                                           then Some (map fst (model_fields m), st_written st)
                                           else None)\<rparr>
                         | (None, st) \<Rightarrow>
                             if st_error st
                             then \<lparr>returned = Inr (- 1),
                                    logged = st_log st @ [(INFO, CSV_is_invalid)] @
                                      (if writer then [(INFO, Deleting_output)] else []),
                                    seen_after = st_seen st, out_file = None\<rparr>
                             else \<lparr>returned = Inr 0,
                                    logged = st_log st @ [(INFO, CSV_is_valid)],
                                    seen_after = st_seen st,
                                    out_file = (if writer
                                                then Some (map fst (model_fields m), st_written st)
                                                else None)\<rparr>)))))"

text \<open>\<^verbatim>\<open>main\<close> in a fresh interpreter: the import of \<^verbatim>\<open>model.py\<close> has just built
  \<^verbatim>\<open>ClusterName\<close>, and \<^verbatim>\<open>run\<close> is called once.\<close>

definition main :: "cli \<Rightarrow> run_result" where
  "main c = run c ClusterName_seen"

section \<open>Notions used in the statements\<close>

text \<open>
  The column a row's error record names; whether a field is required and absent from
  a header; the diagnostics one field calls for against a header.
\<close>

fun column_of :: "log_record \<Rightarrow> string option" where
  "column_of (lvl, Row_validation_error n c col m i) = Some col"
| "column_of (lvl, other) = None"

definition absent_required :: "string list \<Rightarrow> string \<times> field_info \<Rightarrow> bool" where
  "absent_required fieldnames nf = (fst nf \<notin> set fieldnames \<and> is_required (snd nf))"

definition header_diagnostics :: "string list \<Rightarrow> string \<times> field_info \<Rightarrow> log_record list" where
  "header_diagnostics fieldnames nf =
     (if fst nf \<in> set fieldnames then []
      else if is_required (snd nf) then [(ERROR, Required_field_not_present (fst nf))]
      else [(WARNING, Optional_field_not_present (fst nf))])"

text \<open>
  The errors of one field validated alone (the model's own validation, run on the
  schema of that single field); the names of the fields of a model that fail on a
  row; the log record \<^verbatim>\<open>_validate_csv_row\<close> writes for one error.
\<close>

definition field_errors :: "string \<Rightarrow> field_info \<Rightarrow> (string \<times> cell) list \<Rightarrow> string set \<Rightarrow> line_error list" where
  "field_errors name f d seen = fst (fst (validate_fields [(name, f)] d seen))"


definition row_error_record :: "nat \<Rightarrow> row \<Rightarrow> line_error \<Rightarrow> log_record" where
  "row_error_record n r e =
     (ERROR, Row_validation_error n (cluster_descr r) (loc0 e) (msg e) (input e))"



text \<open>
  The cluster name of a row as the uniqueness check receives it: stripped and
  lower-cased, when the row reaches validation and the name has 1 to 30 characters.
  \<open>checked_names\<close> lists these names for the rows the loop processes, up to a
  \<^verbatim>\<open>csv.Error\<close> or an escaping exception. \<open>not_unique_msg\<close> is the message pydantic
  reports for the \<^verbatim>\<open>ValueError\<close> of \<open>nested\<close>, and \<open>is_not_unique\<close> recognises the log
  records that carry it.
\<close>

definition name_checked :: "row \<Rightarrow> string option" where
  "name_checked r =
     (case restkey r of
        Some rest \<Rightarrow> None
      | None \<Rightarrow>
          (case map_of (cols r) ''cluster_name'' of
             Some (Some s) \<Rightarrow>
               if 1 \<le> length (trim s) \<and> length (trim s) \<le> 30
               then Some (to_lowercase (trim s)) else None
           | Some None \<Rightarrow> None
           | None \<Rightarrow> None))"

fun checked_names :: "row_event list \<Rightarrow> string list" where
  "checked_names [] = []"
| "checked_names (Csv_Error n # evs) = []"
| "checked_names (Row n r # evs) =
     (if restkey r \<noteq> None \<and> map_of (cols r) ''cluster_name'' = None then []
      else (case name_checked r of
              Some v \<Rightarrow> v # checked_names evs
            | None \<Rightarrow> checked_names evs))"

definition not_unique_msg :: "string \<Rightarrow> string" where
  "not_unique_msg v = ''Value error, Value \"'' @ v @ '' is not unique''"

fun is_not_unique :: "log_record \<Rightarrow> bool" where
  "is_not_unique (lvl, Row_validation_error n c col m i) =
     (col = ''cluster_name'' \<and> take 12 m = ''Value error,'')"
| "is_not_unique (lvl, other) = False"







text \<open>Sample inputs: a source whose first line is blank; a model that adds an optional
  field \<^verbatim>\<open>site\<close> (with default \<^verbatim>\<open>None\<close>) to the built-in schema, and a source whose
  header lacks a required and the optional column of that model.\<close>

definition blank_header_csv :: cli where
  "blank_header_csv =
     \<lparr>validator_module = No_module, source_opens = True, header = Fieldnames (Some []),
      lines = [Row 2 (DictReader_row [] [''a'', ''g''])], outfile = Output_opens\<rparr>"

definition site_model :: model where
  "site_model =
     \<lparr>model_fields = model_fields BaseCluster @
        [(''site'', \<lparr>annotation = Str, default_value = Some VNone\<rparr>)],
      extra = forbid, serializers = serializers BaseCluster\<rparr>"

definition optional_header_csv :: cli where
  "optional_header_csv =
     \<lparr>validator_module = Module site_model,
      source_opens = True,
      header = Fieldnames (Some [''cluster_name'', ''cluster_tags'']),
      lines = [], outfile = No_output\<rparr>"

text \<open>Sample rows of the built-in schema and of \<^verbatim>\<open>models/platform.py\<close>: an unexpected
  column \<^verbatim>\<open>foo\<close>, with and without a surplus cell; two bad members in \<^verbatim>\<open>dns_servers\<close>;
  a line of one empty cell.\<close>

definition surplus_and_extra_row :: row where
  "surplus_and_extra_row =
     DictReader_row [''cluster_name'', ''cluster_group'', ''cluster_tags'', ''foo'']
                    [''a'', ''g'', ''t'', ''1'', ''2'']"

definition extra_column_row :: row where
  "extra_column_row =
     DictReader_row [''cluster_name'', ''cluster_group'', ''cluster_tags'', ''foo'']
                    [''a'', ''g'', ''t'', ''1'']"



text \<open>Sample sessions of the built-in schema: rows with repeated names, two rows with
  an empty name, a single row; and the state the row loop starts from.\<close>

definition header3 :: "string list" where
  "header3 = [''cluster_name'', ''cluster_group'', ''cluster_tags'']"



definition one_row_csv :: cli where
  "one_row_csv =
     \<lparr>validator_module = No_module, source_opens = True, header = Fieldnames (Some header3),
      lines = [Row 2 (DictReader_row header3 [''a'', ''g'', ''''])],
      outfile = No_output\<rparr>"


definition two_names_model :: model where
  "two_names_model =
     \<lparr>model_fields = model_fields BaseCluster @
        [(''peer_name'', \<lparr>annotation = ClusterName, default_value = None\<rparr>)],
      extra = forbid, serializers = serializers BaseCluster\<rparr>"

definition two_names_row :: row where
  "two_names_row =
     DictReader_row [''cluster_name'', ''cluster_group'', ''cluster_tags'', ''peer_name'']
                    [''a'', ''g'', '''', ''a'']"


section \<open>Properties\<close>

text \<open>
  Claim C10. The uniqueness validator is atomic and value-preserving: for every value
  \<open>v\<close> and every state of the seen set, when \<open>v\<close> is already in the set the check fails
  (a \<^verbatim>\<open>ValueError\<close>) and the set is unchanged; when \<open>v\<close> is not in the set the check
  succeeds, returns \<open>v\<close> itself, and the new set is the old one with exactly \<open>v\<close> added.
\<close>

theorem C10_nested_atomic:
  "(v \<in> seen \<longrightarrow>
      (\<exists>m. fst (nested fmt seen v) = Inl (ValueError m)) \<and> snd (nested fmt seen v) = seen)
   \<and> (v \<notin> seen \<longrightarrow>
      fst (nested fmt seen v) = Inr v \<and> snd (nested fmt seen v) = insert v seen
      \<and> snd (nested fmt seen v) - seen = {v})"
  by (auto simp: nested_def)

theorem C10_nested_atomic_witness:
  "(''a'' \<in> {''a'', ''b''} \<and>
      fst (nested (\<lambda>s. s) {''a'', ''b''} ''a'') = Inl (ValueError ''Value \"a is not unique'')
      \<and> snd (nested (\<lambda>s. s) {''a'', ''b''} ''a'') = {''a'', ''b''})
   \<and> (''c'' \<notin> {''a'', ''b''} \<and>
      fst (nested (\<lambda>s. s) {''a'', ''b''} ''c'') = Inr ''c''
      \<and> snd (nested (\<lambda>s. s) {''a'', ''b''} ''c'') = {''c'', ''a'', ''b''})"
  using C10_nested_atomic [of "''a''" "{''a'', ''b''}" "\<lambda>s. s"]
        C10_nested_atomic [of "''c''" "{''a'', ''b''}" "\<lambda>s. s"]
  by (simp add: nested_def)

subsection \<open>Evaluations of the IPv4 parser\<close>

lemma ipv4_bad_mask:
  "validate_ipv4_address ''10.0.0.1/33'' True =
     Inl (ValueError (''Invalid CIDR value: 10.0.0.1/33. Error: '' @ py_repr ''33'' @ '' is not a valid netmask''))"
  by code_simp

lemma ipv4_good:
  "validate_ipv4_address ''10.0.0.0/24'' True = Inr ''10.0.0.0/24''"
  by code_simp

lemma ipv4_net_24: "IPv4Network ''10.0.0.0/24'' = Inr (167772160, 24)"
  by code_simp

lemma ipv4_net_host_bits: "IPv4Network ''10.0.0.1/24'' = Inr (167772160, 24)"
  by code_simp

text \<open>
  Claim C9. For an IPv4 CIDR field (\<^verbatim>\<open>IP\<close>): the input \<^verbatim>\<open>10.0.0.1/33\<close>, whose mask is
  invalid, fails validation with an error citing an invalid CIDR value; the input
  \<^verbatim>\<open>10.0.0.0/24\<close> parses as a network (host bits are masked, not refused, as
  \<^verbatim>\<open>10.0.0.1/24\<close> shows), passes validation, and is dumped as exactly the string
  \<^verbatim>\<open>10.0.0.0/24\<close>.
\<close>

theorem C9_ipv4_cidr:
  "validate_ipv4_address ''10.0.0.1/33'' True =
     Inl (ValueError (''Invalid CIDR value: 10.0.0.1/33. Error: '' @ py_repr ''33'' @ '' is not a valid netmask''))
   \<and> validate_annotation IP seen (Some ''10.0.0.1/33'') =
     (Inl [([], ''Value error, Invalid CIDR value: 10.0.0.1/33. Error: '' @ py_repr ''33'' @ '' is not a valid netmask'',
            InCell (Some ''10.0.0.1/33''))], seen)
   \<and> IPv4Network ''10.0.0.0/24'' = Inr (167772160, 24)
   \<and> IPv4Network ''10.0.0.1/24'' = Inr (167772160, 24)
   \<and> validate_ipv4_address ''10.0.0.0/24'' True = Inr ''10.0.0.0/24''
   \<and> validate_annotation IP seen (Some ''10.0.0.0/24'') = (Inr (VStr ''10.0.0.0/24''), seen)
   \<and> model_dump \<lparr>model_fields = [(''network'', \<lparr>annotation = IP, default_value = None\<rparr>)],
                   extra = forbid, serializers = []\<rparr>
        [(''network'', VStr ''10.0.0.0/24'')] = [(''network'', VStr ''10.0.0.0/24'')]"
  by (simp add: ipv4_bad_mask ipv4_good ipv4_net_24 ipv4_net_host_bits validate_IP_def model_dump_def)

text \<open>
  Claim C3. Coercion of a set-valued field splits on commas and is meant to give the
  set of trimmed, non-empty tokens. The scenario input \<^verbatim>\<open>" a, b ,,a"\<close> does coerce to
  the set of \<^verbatim>\<open>a\<close> and \<^verbatim>\<open>b\<close>, dumped comma-joined; but a token of whitespace only passes
  the emptiness test before it is stripped, so \<^verbatim>\<open>"a, ,b"\<close> coerces to a set that holds
  the empty string, and the field accepts it.
\<close>

theorem C3_blank_token_kept:
  "coerce_splt_commas_rtn_set_strs (Some ''a, ,b'') = VSet [''a'', '''', ''b'']
   \<and> validate_annotation ClusterTags seen (Some ''a, ,b'') = (Inr (VSet [''a'', '''', ''b'']), seen)
   \<and> coerce_splt_commas_rtn_set_strs (Some '' a, b ,,a'') = VSet [''b'', ''a'']
   \<and> dump_set_of_vals (VSet [''b'', ''a'']) = VStr ''b,a''"
  by (simp add: coerce_splt_commas_rtn_set_strs_def py_set_def strip_def py_isspace_def
        validate_ClusterTags_def coerce_empty_str_to_none_def dump_set_of_vals_def)

text \<open>
  Claim C8. A malformed row (more cells than header names, hence the key \<^verbatim>\<open>None\<close>)
  is meant to be reported and never to crash. When the header has no
  \<^verbatim>\<open>cluster_name\<close> column, the handler's \<^verbatim>\<open>row['cluster_name']\<close> raises \<^verbatim>\<open>KeyError\<close>:
  nothing is logged for the row, and the exception escapes \<^verbatim>\<open>_validate_csv_row\<close> and
  \<^verbatim>\<open>run\<close>.
\<close>

theorem C8_malformed_row_KeyError:
  "DictReader_row [''cluster_group'', ''cluster_tags''] [''g'', ''t'', ''x'']
     = \<lparr>cols = [(''cluster_group'', Some ''g''), (''cluster_tags'', Some ''t'')], restkey = Some [''x'']\<rparr>
   \<and> validate_csv_row BaseCluster n
        (DictReader_row [''cluster_group'', ''cluster_tags''] [''g'', ''t'', ''x'']) seen
     = ((Inl (KeyError ''cluster_name''), []), seen)
   \<and> returned (main \<lparr>validator_module = No_module, source_opens = True,
                       header = Fieldnames (Some [''cluster_group'', ''cluster_tags'']),
                       lines = [Row 2 (DictReader_row [''cluster_group'', ''cluster_tags''] [''g'', ''t'', ''x''])],
                       outfile = No_output\<rparr>)
     = Inl (KeyError ''cluster_name'')"
  by (simp add: DictReader_row_def validate_csv_row_def model_init_def main_def run_def
        load_model_dynamic_def validate_csv_fields_def BaseCluster_def is_required_def
        setup_csv_writer_def)

subsection \<open>Header validation\<close>

lemma fields_loop_eq:
  "fields_loop fs fieldnames ve lg =
     (ve \<or> list_ex (absent_required fieldnames) fs,
      lg @ concat (map (header_diagnostics fieldnames) fs))"
  by (induction fs arbitrary: ve lg)
     (auto simp: absent_required_def header_diagnostics_def)

lemma rows_loop_error_sticky:
  "rows_loop m w evs st = (x, st') \<Longrightarrow> st_error st \<Longrightarrow> st_error st'"
proof (induction m w evs st arbitrary: x st' rule: rows_loop.induct)
  case (1 m writer st)
  then show ?case by auto
next
  case (2 m writer n evs st)
  then show ?case by auto
next
  case (3 m writer n r evs st)
  show ?case
  proof (cases "validate_csv_row m n r (st_seen st)")
    case (Pair a seen')
    then obtain res lg where a: "a = (res, lg)" by (cases a)
    show ?thesis
    proof (cases res)
      case (Inl exc)
      with 3 Pair a show ?thesis by auto
    next
      case (Inr b)
      then obtain clus row_error where b: "b = (clus, row_error)" by (cases b)
      from 3(2) Pair a Inr b have
        "rows_loop m writer evs
            \<lparr>st_error = (if row_error then True else st_error st),
             st_log = st_log st @ (if n mod 100 = 0 then [(INFO, Processed_rows n)] else []) @ lg,
             st_seen = seen',
             st_written =
               (if \<not> row_error \<and> writer
                then (case clus of
                        Some c \<Rightarrow> st_written st @ [model_dump m c]
                      | None \<Rightarrow> st_written st)
                else st_written st)\<rparr> = (x, st')"
        by (simp add: Let_def)
      from 3(1)[OF refl Pair[symmetric] a[symmetric] Inr b[symmetric] this] 3(3)
      show ?thesis by simp
    qed
  qed
qed

text \<open>
  Claim C7. When the header's list of field names is empty or unavailable (the
  session having loaded its model and opened its source), the session logs exactly
  one record of level warning or error, \<^verbatim>\<open>Missing CSV field names\<close>, and returns 1, the
  code of an operational error: not -1, the code of a failed validation. No row is
  processed: the result does not depend on the lines that follow, the closure state
  is untouched and no output file is left.
\<close>

theorem C7_missing_field_names:
  assumes "validator_module c = No_module \<or> (\<exists>m. validator_module c = Module m)"
    and "source_opens c"
    and "header c = Fieldnames None \<or> header c = Fieldnames (Some [])"
  shows "returned (run c seen) = Inr 1
    \<and> filter (\<lambda>r. fst r = ERROR \<or> fst r = WARNING) (logged (run c seen)) = [(ERROR, Missing_CSV_field_names)]
    \<and> seen_after (run c seen) = seen
    \<and> out_file (run c seen) = None
    \<and> run c seen = run (c\<lparr>lines := []\<rparr>) seen"
  using assms
  by (auto simp: run_def load_model_dynamic_def validate_csv_fields_def)

theorem C7_missing_field_names_witness:
  "(validator_module blank_header_csv = No_module \<and> source_opens blank_header_csv
     \<and> header blank_header_csv = Fieldnames (Some []) \<and> lines blank_header_csv \<noteq> [])
   \<and> returned (run blank_header_csv {}) = Inr 1
   \<and> filter (\<lambda>r. fst r = ERROR \<or> fst r = WARNING) (logged (run blank_header_csv {}))
        = [(ERROR, Missing_CSV_field_names)]
   \<and> seen_after (run blank_header_csv {}) = {}
   \<and> out_file (run blank_header_csv {}) = None
   \<and> run blank_header_csv {} = run (blank_header_csv\<lparr>lines := []\<rparr>) {}"
proof -
  have 1: "validator_module blank_header_csv = No_module \<or> (\<exists>m. validator_module blank_header_csv = Module m)"
    by (simp add: blank_header_csv_def)
  have 2: "source_opens blank_header_csv"
    by (simp add: blank_header_csv_def)
  have 3: "header blank_header_csv = Fieldnames None \<or> header blank_header_csv = Fieldnames (Some [])"
    by (simp add: blank_header_csv_def)
  have 4: "validator_module blank_header_csv = No_module \<and> source_opens blank_header_csv
     \<and> header blank_header_csv = Fieldnames (Some []) \<and> lines blank_header_csv \<noteq> []"
    by (simp add: blank_header_csv_def)
  from C7_missing_field_names [OF 1 2 3, of "{}"] 4 show ?thesis
    by blast
qed

lemma run_loaded:
  assumes "validator_module c = Module m \<or> validator_module c = No_module \<and> m = BaseCluster"
  shows "\<exists>mo lg0. load_model_dynamic (validator_module c) = (Inr mo, lg0)
           \<and> (case mo of Some m' \<Rightarrow> m' | None \<Rightarrow> BaseCluster) = m"
  using assms by (auto simp: load_model_dynamic_def)

text \<open>
  Claim C6, for a header that is present and not empty. Header validation logs, for
  each field of the schema in order, nothing when its name is in the header, one
  error record when it is required and absent, and one warning record when it is
  optional and absent; the flag it returns is set exactly when some required field
  is absent. A session whose flag is set never returns 0; a session with no
  required field absent, no rows and no output failure returns 0 whatever warnings
  were logged.
\<close>

theorem C6_header_diagnostics:
  assumes "fieldnames \<noteq> []"
  shows "validate_csv_fields m (Fieldnames (Some fieldnames)) =
           (Inr (list_ex (absent_required fieldnames) (model_fields m)),
            concat (map (header_diagnostics fieldnames) (model_fields m)))
    \<and> ((validator_module c = Module m \<or> validator_module c = No_module \<and> m = BaseCluster)
         \<and> source_opens c \<and> header c = Fieldnames (Some fieldnames) \<longrightarrow>
         (list_ex (absent_required fieldnames) (model_fields m) \<longrightarrow> returned (run c seen) \<noteq> Inr 0)
       \<and> (\<not> list_ex (absent_required fieldnames) (model_fields m) \<and> lines c = []
            \<and> outfile c \<noteq> Output_does_not_open \<longrightarrow> returned (run c seen) = Inr 0))"
proof -
  have hv: "validate_csv_fields m (Fieldnames (Some fieldnames)) =
           (Inr (list_ex (absent_required fieldnames) (model_fields m)),
            concat (map (header_diagnostics fieldnames) (model_fields m)))"
    using assms by (simp add: validate_csv_fields_def fields_loop_eq)
  have failed: "returned (run c seen) \<noteq> Inr 0"
    if c: "validator_module c = Module m \<or> validator_module c = No_module \<and> m = BaseCluster"
          "source_opens c" "header c = Fieldnames (Some fieldnames)"
      and ex: "list_ex (absent_required fieldnames) (model_fields m)"
  proof -
    from run_loaded[OF c(1)] obtain mo lg0 where
      ld: "load_model_dynamic (validator_module c) = (Inr mo, lg0)"
      and mo: "(case mo of Some m' \<Rightarrow> m' | None \<Rightarrow> BaseCluster) = m"
      by blast
    show ?thesis
    proof (cases "setup_csv_writer (outfile c)")
      case (Pair w lg3)
      show ?thesis
      proof (cases w)
        case (Inl e)
        with Pair c hv ld mo show ?thesis
          by (simp add: run_def)
      next
        case (Inr writer)
        obtain x st' where loop: "rows_loop m writer (lines c)
            \<lparr>st_error = True,
             st_log = (lg0 @ [(DEBUG, Using_source_file)]) @
                      concat (map (header_diagnostics fieldnames) (model_fields m)) @ lg3,
             st_seen = seen, st_written = []\<rparr> = (x, st')"
          by (cases "rows_loop m writer (lines c)
            \<lparr>st_error = True,
             st_log = (lg0 @ [(DEBUG, Using_source_file)]) @
                      concat (map (header_diagnostics fieldnames) (model_fields m)) @ lg3,
             st_seen = seen, st_written = []\<rparr>")
        from rows_loop_error_sticky[OF loop] have "st_error st'" by simp
        with Pair Inr c hv ex loop ld mo show ?thesis
          by (cases x) (simp_all add: run_def)
      qed
    qed
  qed
  have passed: "returned (run c seen) = Inr 0"
    if c: "validator_module c = Module m \<or> validator_module c = No_module \<and> m = BaseCluster"
          "source_opens c" "header c = Fieldnames (Some fieldnames)"
      and ex: "\<not> list_ex (absent_required fieldnames) (model_fields m)"
      and l: "lines c = []" and o: "outfile c \<noteq> Output_does_not_open"
  proof -
    from run_loaded[OF c(1)] obtain mo lg0 where
      ld: "load_model_dynamic (validator_module c) = (Inr mo, lg0)"
      and mo: "(case mo of Some m' \<Rightarrow> m' | None \<Rightarrow> BaseCluster) = m"
      by blast
    from c ex l o hv ld mo show ?thesis
      by (cases "outfile c") (simp_all add: run_def setup_csv_writer_def)
  qed
  from hv failed passed show ?thesis by blast
qed

theorem C6_header_diagnostics_witness:
  "[''cluster_name'', ''cluster_tags''] \<noteq> []
   \<and> validate_csv_fields (case validator_module optional_header_csv of Module m \<Rightarrow> m | _ \<Rightarrow> BaseCluster)
        (header optional_header_csv) =
       (Inr True, [(ERROR, Required_field_not_present ''cluster_group''),
                   (WARNING, Optional_field_not_present ''site'')])
   \<and> returned (run optional_header_csv {}) = Inr (- 1)
   \<and> returned (run (optional_header_csv\<lparr>header := Fieldnames (Some [''cluster_name'', ''cluster_group'', ''cluster_tags''])\<rparr>) {}) = Inr 0
   \<and> filter (\<lambda>r. fst r = ERROR \<or> fst r = WARNING)
        (logged (run (optional_header_csv\<lparr>header := Fieldnames (Some [''cluster_name'', ''cluster_group'', ''cluster_tags''])\<rparr>) {}))
       = [(WARNING, Optional_field_not_present ''site'')]"
proof -
  have 1: "[''cluster_name'', ''cluster_tags''] \<noteq> []" by simp
  from C6_header_diagnostics [OF 1, of _ optional_header_csv "{}"]
  show ?thesis
    by (simp add: optional_header_csv_def site_model_def BaseCluster_def absent_required_def header_diagnostics_def
          is_required_def run_def load_model_dynamic_def validate_csv_fields_def setup_csv_writer_def)
qed

text \<open>
  Claim C6 as stated, for every header: with the empty header every field of the
  model is absent, the required ones of \<^verbatim>\<open>BaseCluster\<close> and the optional \<^verbatim>\<open>site\<close>, yet
  header validation raises after one error record, \<^verbatim>\<open>Missing CSV field names\<close>: no
  record names a required field, and no warning is logged for the optional one.
\<close>

theorem C6_empty_header_counterexample:
  "list_ex (absent_required []) (model_fields site_model)
   \<and> header_diagnostics [] (''site'', \<lparr>annotation = Str, default_value = Some VNone\<rparr>)
       = [(WARNING, Optional_field_not_present ''site'')]
   \<and> validate_csv_fields site_model (Fieldnames (Some [])) =
       (Inl (RuntimeError ''missing CSV field names''), [(ERROR, Missing_CSV_field_names)])
   \<and> (ERROR, Required_field_not_present ''cluster_name'')
       \<notin> set (snd (validate_csv_fields site_model (Fieldnames (Some []))))
   \<and> (WARNING, Optional_field_not_present ''site'')
       \<notin> set (snd (validate_csv_fields site_model (Fieldnames (Some []))))"
  by (simp add: validate_csv_fields_def site_model_def BaseCluster_def absent_required_def
        header_diagnostics_def is_required_def)

subsection \<open>Row validation\<close>

lemma dict_keys_set: "set (dict_keys d) = fst ` set d"
  by (induction d rule: dict_keys.induct) auto

lemma dict_keys_distinct: "distinct (dict_keys d)"
  by (induction d rule: dict_keys.induct) auto

lemma validate_fields_loc0_aux:
  "validate_fields fs d seen = ((errs, vals), seen') \<Longrightarrow> e \<in> set errs \<Longrightarrow> loc0 e \<in> fst ` set fs"
proof (induction fs arbitrary: seen errs vals seen' e)
  case Nil
  then show ?case by simp
next
  case (Cons nf fs)
  obtain name f where nf: "nf = (name, f)" by (cases nf)
  from Cons.prems Cons.IH show ?case
    unfolding nf
    by (fastforce split: option.splits prod.splits sum.splits)
qed

lemma validate_fields_loc0:
  "e \<in> set (fst (fst (validate_fields fs d seen))) \<Longrightarrow> loc0 e \<in> fst ` set fs"
  using validate_fields_loc0_aux[of fs d seen "fst (fst (validate_fields fs d seen))"
          "snd (fst (validate_fields fs d seen))" "snd (validate_fields fs d seen)" e]
  by simp

lemma filter_concat_distinct:
  assumes "distinct ks" and "\<And>k' e. e \<in> set (g k') \<Longrightarrow> loc0 e = k'"
  shows "filter (\<lambda>e. loc0 e = k) (concat (map g ks)) = (if k \<in> set ks then g k else [])"
  using assms
proof (induction ks)
  case Nil
  then show ?case by simp
next
  case (Cons a ks)
  have a: "filter (\<lambda>e. loc0 e = k) (g a) = (if a = k then g a else [])"
    using Cons.prems(2)[of _ a] by (auto simp: filter_empty_conv filter_id_conv)
  from Cons show ?case by (auto simp: a)
qed

lemma extra_forbidden_filter:
  "filter (\<lambda>e. loc0 e = k) (extra_forbidden fs d) =
     (case map_of d k of
        Some c \<Rightarrow> if k \<in> fst ` set fs then []
                  else [LineError k [] ''Extra inputs are not permitted'' (InCell c)]
      | None \<Rightarrow> [])"
proof -
  let ?g = "\<lambda>k. case map_of d k of
                         None \<Rightarrow> []
                       | Some c \<Rightarrow> [LineError k [] ''Extra inputs are not permitted'' (InCell c)]"
  have d: "distinct (filter (\<lambda>k. k \<notin> set (map fst fs)) (dict_keys d))"
    by (simp add: dict_keys_distinct)
  have g: "\<And>k' e. e \<in> set (?g k') \<Longrightarrow> loc0 e = k'"
    by (auto split: option.splits)
  have "filter (\<lambda>e. loc0 e = k) (extra_forbidden fs d) =
      (if k \<in> set (filter (\<lambda>k. k \<notin> set (map fst fs)) (dict_keys d)) then ?g k else [])"
    unfolding extra_forbidden_def
    by (rule filter_concat_distinct[OF d g])
  moreover have "k \<in> fst ` set d \<longleftrightarrow> map_of d k \<noteq> None"
    by (simp add: map_of_eq_None_iff)
  ultimately show ?thesis
    by (auto simp: dict_keys_set split: option.splits)
qed

text \<open>
  Claim C5, for a row with no surplus cells. Under \<^verbatim>\<open>extra='forbid'\<close>, for every key of
  the row that names no field of the schema, row validation returns no record and
  logs exactly one record for that column: \<^verbatim>\<open>Extra inputs are not permitted\<close>, with the
  key's cell as the input.
\<close>

theorem C5_extra_inputs:
  assumes "extra m = forbid" and "restkey r = None"
    and "map_of (cols r) k = Some c" and "k \<notin> fst ` set (model_fields m)"
  shows "fst (fst (validate_csv_row m n r seen)) = Inr (None, True)
    \<and> filter (\<lambda>rec. column_of rec = Some k) (snd (fst (validate_csv_row m n r seen))) =
        [(ERROR, Row_validation_error n (cluster_descr r) k ''Extra inputs are not permitted'' (InCell c))]"
proof -
  obtain errs vals seen' where vf: "validate_fields (model_fields m) (cols r) seen = ((errs, vals), seen')"
    by (metis prod.exhaust)
  have e1: "filter (\<lambda>e. loc0 e = k) errs = []"
    using validate_fields_loc0[of _ "model_fields m" "cols r" seen] assms(4) vf
    by (auto simp: filter_empty_conv)
  have e2: "filter (\<lambda>e. loc0 e = k) (extra_forbidden (model_fields m) (cols r)) =
      [LineError k [] ''Extra inputs are not permitted'' (InCell c)]"
    using assms(3,4) by (simp add: extra_forbidden_filter)
  then have ne: "extra_forbidden (model_fields m) (cols r) \<noteq> []"
    by auto
  have col: "(\<lambda>rec. column_of rec = Some k) \<circ>
        (\<lambda>pydantic_err. (ERROR, Row_validation_error n (cluster_descr r) (loc0 pydantic_err)
                             (msg pydantic_err) (input pydantic_err)))
      = (\<lambda>e. loc0 e = k)"
    by (auto simp: fun_eq_iff)
  show ?thesis
    using assms(1,2) vf ne e1 e2
    by (simp add: validate_csv_row_def model_init_def filter_map col)
qed

theorem C5_extra_inputs_witness:
  "(extra BaseCluster = forbid \<and> restkey extra_column_row = None
     \<and> map_of (cols extra_column_row) ''foo'' = Some (Some ''1'')
     \<and> ''foo'' \<notin> fst ` set (model_fields BaseCluster))
   \<and> validate_csv_row BaseCluster 2 extra_column_row {} =
       ((Inr (None, True),
         [(ERROR, Row_validation_error 2 ''cluster a'' ''foo'' ''Extra inputs are not permitted''
                    (InCell (Some ''1'')))]), {''a''})"
proof -
  have h: "extra BaseCluster = forbid" "restkey extra_column_row = None"
     "map_of (cols extra_column_row) ''foo'' = Some (Some ''1'')"
     "''foo'' \<notin> fst ` set (model_fields BaseCluster)"
    by (simp_all add: BaseCluster_def extra_column_row_def DictReader_row_def)
  have v: "validate_csv_row BaseCluster 2 extra_column_row {} =
       ((Inr (None, True),
         [(ERROR, Row_validation_error 2 ''cluster a'' ''foo'' ''Extra inputs are not permitted''
                    (InCell (Some ''1'')))]), {''a''})"
    by code_simp
  from C5_extra_inputs[OF h, of 2 "{}"] h v show ?thesis
    by simp
qed

text \<open>
  Claim C5 as stated, for every row: a row with the unexpected column \<^verbatim>\<open>foo\<close> and one
  surplus cell is reported once, as a \<^verbatim>\<open>TypeError\<close>; no record cites \<^verbatim>\<open>foo\<close>.
\<close>

theorem C5_surplus_cells_counterexample:
  "extra BaseCluster = forbid
   \<and> map_of (cols surplus_and_extra_row) ''foo'' = Some (Some ''1'')
   \<and> ''foo'' \<notin> fst ` set (model_fields BaseCluster)
   \<and> validate_csv_row BaseCluster 2 surplus_and_extra_row {} =
       ((Inr (None, True), [(ERROR, Row_TypeError 2 (Some ''a''))]), {})"
  by (simp add: BaseCluster_def surplus_and_extra_row_def DictReader_row_def
        validate_csv_row_def model_init_def)

lemma validate_annotation_not_ClusterName:
  "a \<noteq> ClusterName \<Longrightarrow> validate_annotation a s c = (fst (validate_annotation a s' c), s)"
  by (cases a) auto

lemma validate_fields_Cons:
  "validate_fields (nf # fs) d s =
     (case validate_fields [nf] d s of
        ((e1, v1), s1) \<Rightarrow>
          (case validate_fields fs d s1 of
             ((e2, v2), s2) \<Rightarrow> ((e1 @ e2, v1 @ v2), s2)))"
  by (cases nf) (auto split: option.splits prod.splits sum.splits)

lemma validate_fields_single_not_ClusterName:
  "annotation (snd nf) \<noteq> ClusterName \<Longrightarrow>
     validate_fields [nf] d s = (fst (validate_fields [nf] d s'), s)"
  using validate_annotation_not_ClusterName[of "annotation (snd nf)" s _ s']
  by (cases nf) (auto split: option.splits prod.splits sum.splits)

lemma validate_fields_no_ClusterName:
  "list_all (\<lambda>nf. annotation (snd nf) \<noteq> ClusterName) fs \<Longrightarrow>
     validate_fields fs d s = (fst (validate_fields fs d s'), s)"
proof (induction fs arbitrary: s s')
  case Nil
  then show ?case by simp
next
  case (Cons nf fs)
  then have a: "annotation (snd nf) \<noteq> ClusterName"
    and b: "list_all (\<lambda>nf. annotation (snd nf) \<noteq> ClusterName) fs"
    by simp_all
  obtain e1 v1 s1 where h1: "validate_fields [nf] d s' = ((e1, v1), s1)"
    by (metis prod.exhaust)
  obtain e2 v2 s2 where h2: "validate_fields fs d s1 = ((e2, v2), s2)"
    by (metis prod.exhaust)
  from validate_fields_single_not_ClusterName[OF a, of d s s'] h1
  have g1: "validate_fields [nf] d s = ((e1, v1), s)" by simp
  from Cons.IH[OF b, of s s1] h2
  have g2: "validate_fields fs d s = ((e2, v2), s)" by simp
  show ?case
    unfolding validate_fields_Cons[of nf fs] by (simp add: h1 h2 g1 g2)
qed

lemma field_errors_not_ClusterName:
  "annotation f \<noteq> ClusterName \<Longrightarrow> field_errors name f d s = field_errors name f d s'"
  using validate_fields_single_not_ClusterName[of "(name, f)" d s s']
  by (simp add: field_errors_def)
















subsection \<open>The uniqueness tracker across rows and sessions\<close>

lemma extra_forbidden_msg:
  "e \<in> set (extra_forbidden fs d) \<Longrightarrow> msg e = ''Extra inputs are not permitted'' \<and> loc0 e \<notin> fst ` set fs"
  by (force simp: extra_forbidden_def split: option.splits)

lemma BaseCluster_fields:
  "validate_fields (model_fields BaseCluster) d seen =
     (case validate_fields [(''cluster_name'', \<lparr>annotation = ClusterName, default_value = None\<rparr>)] d seen of
        ((e1, v1), s1) \<Rightarrow>
          (case validate_fields [(''cluster_group'', \<lparr>annotation = Str, default_value = None\<rparr>),
                                 (''cluster_tags'', \<lparr>annotation = ClusterTags, default_value = None\<rparr>)] d seen of
             ((e2, v2), s2) \<Rightarrow> ((e1 @ e2, v1 @ v2), s1)))"
proof -
  let ?rest = "[(''cluster_group'', \<lparr>annotation = Str, default_value = None\<rparr>),
                (''cluster_tags'', \<lparr>annotation = ClusterTags, default_value = None\<rparr>)]"
  have none: "list_all (\<lambda>nf. annotation (snd nf) \<noteq> ClusterName) ?rest" by simp
  obtain e1 v1 s1 where h1: "validate_fields [(''cluster_name'', \<lparr>annotation = ClusterName, default_value = None\<rparr>)] d seen = ((e1, v1), s1)"
    by (metis prod.exhaust)
  obtain e2 v2 s2 where h2: "validate_fields ?rest d seen = ((e2, v2), s2)"
    by (metis prod.exhaust)
  from validate_fields_no_ClusterName[OF none, of d s1 seen] h2
  have h3: "validate_fields ?rest d s1 = ((e2, v2), s1)" by simp
  have "validate_fields ((''cluster_name'', \<lparr>annotation = ClusterName, default_value = None\<rparr>) # ?rest) d seen
        = ((e1 @ e2, v1 @ v2), s1)"
    by (subst validate_fields_Cons) (simp only: h1 h3 prod.case)
  then show ?thesis
    by (simp only: BaseCluster_def model.simps h1 h2 prod.case)
qed

lemma rest_errors_loc0:
  "e \<in> set (fst (fst (validate_fields [(''cluster_group'', \<lparr>annotation = Str, default_value = None\<rparr>),
                (''cluster_tags'', \<lparr>annotation = ClusterTags, default_value = None\<rparr>)] d seen)))
   \<Longrightarrow> loc0 e \<noteq> ''cluster_name''"
  using validate_fields_loc0[of e _ d seen] by fastforce

lemma cluster_name_field:
  "validate_fields [(''cluster_name'', \<lparr>annotation = ClusterName, default_value = None\<rparr>)] d seen =
     (case map_of d ''cluster_name'' of
        None \<Rightarrow> (([LineError ''cluster_name'' [] ''Field required'' (InRow d)], []), seen)
      | Some None \<Rightarrow> (([LineError ''cluster_name'' [] ''Input should be a valid string'' (InCell None)], []), seen)
      | Some (Some s) \<Rightarrow>
          if length (trim s) < 1
            then (([LineError ''cluster_name'' [] ''String should have at least 1 character'' (InCell (Some s))], []), seen)
          else if length (trim s) > 30
            then (([LineError ''cluster_name'' [] ''String should have at most 30 characters'' (InCell (Some s))], []), seen)
          else if to_lowercase (trim s) \<in> seen
            then (([LineError ''cluster_name'' [] (not_unique_msg (to_lowercase (trim s))) (InCell (Some s))], []), seen)
          else (([], [(''cluster_name'', VStr (to_lowercase (trim s)))]), insert (to_lowercase (trim s)) seen))"
  by (simp add: validate_ClusterName_def string_type_def nested_def not_unique_msg_def Let_def
           split: option.splits)

lemma validate_csv_row_no_restkey:
  assumes "restkey r = None"
  shows "snd (fst (validate_csv_row m n r seen)) =
           map (row_error_record n r)
             (fst (fst (validate_fields (model_fields m) (cols r) seen))
              @ (if extra m = forbid then extra_forbidden (model_fields m) (cols r) else []))"
    and "snd (validate_csv_row m n r seen) = snd (validate_fields (model_fields m) (cols r) seen)"
    and "\<exists>clus b. fst (fst (validate_csv_row m n r seen)) = Inr (clus, b)"
  using assms
  by (auto simp: validate_csv_row_def model_init_def row_error_record_def[abs_def]
           split: prod.splits)

lemma BaseCluster_row_step:
  assumes "restkey r = None"
  shows "snd (validate_csv_row BaseCluster n r seen) =
           (case name_checked r of Some v \<Rightarrow> insert v seen | None \<Rightarrow> seen)"
    and "filter is_not_unique (snd (fst (validate_csv_row BaseCluster n r seen))) =
           (case name_checked r of
              Some v \<Rightarrow> if v \<in> seen
                        then [(ERROR, Row_validation_error n (cluster_descr r) ''cluster_name''
                                 (not_unique_msg v) (InCell (the (map_of (cols r) ''cluster_name''))))]
                        else []
            | None \<Rightarrow> [])"
    and "name_checked r = Some v \<Longrightarrow>
         filter (\<lambda>rec. column_of rec = Some ''cluster_name'')
                (snd (fst (validate_csv_row BaseCluster n r seen))) =
           (if v \<in> seen
            then [(ERROR, Row_validation_error n (cluster_descr r) ''cluster_name''
                     (not_unique_msg v) (InCell (the (map_of (cols r) ''cluster_name''))))]
            else [])"
proof -
  let ?cn = "[(''cluster_name'', \<lparr>annotation = ClusterName, default_value = None\<rparr>)]"
  let ?rest = "[(''cluster_group'', \<lparr>annotation = Str, default_value = None\<rparr>),
                (''cluster_tags'', \<lparr>annotation = ClusterTags, default_value = None\<rparr>)]"
  obtain e1 v1 s1 where h1: "validate_fields ?cn (cols r) seen = ((e1, v1), s1)"
    by (metis prod.exhaust)
  obtain e2 v2 s2 where h2: "validate_fields ?rest (cols r) seen = ((e2, v2), s2)"
    by (metis prod.exhaust)
  note h1c = h1[unfolded cluster_name_field]
  let ?ex = "extra_forbidden (model_fields BaseCluster) (cols r)"
  have vf: "validate_fields (model_fields BaseCluster) (cols r) seen = ((e1 @ e2, v1 @ v2), s1)"
    by (simp only: BaseCluster_fields h1 h2 prod.case)
  have lg: "snd (fst (validate_csv_row BaseCluster n r seen)) =
      map (row_error_record n r) (e1 @ e2 @ ?ex)"
    using validate_csv_row_no_restkey(1)[OF assms, of BaseCluster n seen] vf
    by (simp add: BaseCluster_def)
  have e2: "\<forall>e \<in> set e2. loc0 e \<noteq> ''cluster_name''"
    using rest_errors_loc0[of _ "cols r" seen] h2 by simp
  have ex: "\<forall>e \<in> set ?ex. loc0 e \<noteq> ''cluster_name''"
    using extra_forbidden_msg[of _ "model_fields BaseCluster" "cols r"]
    by (force simp: BaseCluster_def)
  have nu: "is_not_unique (row_error_record n r e) \<longleftrightarrow>
      loc0 e = ''cluster_name'' \<and> take 12 (msg e) = ''Value error,''" for e
    by (simp add: row_error_record_def)
  have co: "column_of (row_error_record n r e) = Some (loc0 e)" for e
    by (simp add: row_error_record_def)
  have f2: "filter is_not_unique (map (row_error_record n r) (e2 @ ?ex)) = []"
    using e2 ex by (auto simp: filter_empty_conv nu)
  have c2: "filter (\<lambda>rec. column_of rec = Some ''cluster_name'') (map (row_error_record n r) (e2 @ ?ex)) = []"
    using e2 ex by (auto simp: filter_empty_conv co)
  show "snd (validate_csv_row BaseCluster n r seen) =
           (case name_checked r of Some v \<Rightarrow> insert v seen | None \<Rightarrow> seen)"
    using validate_csv_row_no_restkey(2)[OF assms, of BaseCluster n seen] vf h1c assms
    by (auto simp: name_checked_def Suc_le_eq split: option.splits if_splits)
  have f1: "filter is_not_unique (map (row_error_record n r) e1) =
           (case name_checked r of
              Some v \<Rightarrow> if v \<in> seen
                        then [(ERROR, Row_validation_error n (cluster_descr r) ''cluster_name''
                                 (not_unique_msg v) (InCell (the (map_of (cols r) ''cluster_name''))))]
                        else []
            | None \<Rightarrow> [])"
    using h1c assms
    by (auto simp: name_checked_def row_error_record_def not_unique_msg_def Suc_le_eq
             split: option.splits if_splits)
  show "filter is_not_unique (snd (fst (validate_csv_row BaseCluster n r seen))) =
           (case name_checked r of
              Some v \<Rightarrow> if v \<in> seen
                        then [(ERROR, Row_validation_error n (cluster_descr r) ''cluster_name''
                                 (not_unique_msg v) (InCell (the (map_of (cols r) ''cluster_name''))))]
                        else []
            | None \<Rightarrow> [])"
    using f1 f2 by (simp add: lg)
  show "filter (\<lambda>rec. column_of rec = Some ''cluster_name'')
                (snd (fst (validate_csv_row BaseCluster n r seen))) =
           (if v \<in> seen
            then [(ERROR, Row_validation_error n (cluster_descr r) ''cluster_name''
                     (not_unique_msg v) (InCell (the (map_of (cols r) ''cluster_name''))))]
            else [])" if "name_checked r = Some v"
  proof -
    have "filter (\<lambda>rec. column_of rec = Some ''cluster_name'') (map (row_error_record n r) e1) =
           (if v \<in> seen
            then [(ERROR, Row_validation_error n (cluster_descr r) ''cluster_name''
                     (not_unique_msg v) (InCell (the (map_of (cols r) ''cluster_name''))))]
            else [])"
      using h1c assms that
      by (auto simp: name_checked_def row_error_record_def Suc_le_eq
               split: option.splits if_splits)
    with c2 show ?thesis by (simp add: lg)
  qed
qed

lemma validate_csv_row_restkey:
  "restkey r = Some rest \<Longrightarrow>
     validate_csv_row m n r seen =
       (case map_of (cols r) ''cluster_name'' of
          None \<Rightarrow> ((Inl (KeyError ''cluster_name''), []), seen)
        | Some v \<Rightarrow> ((Inr (None, True), [(ERROR, Row_TypeError n v)]), seen))"
  by (simp add: validate_csv_row_def model_init_def)


lemma BaseCluster_loop:
  "rows_loop BaseCluster w evs st = (x, st') \<Longrightarrow>
     st_seen st' = st_seen st \<union> set (checked_names evs)
     \<and> length (filter is_not_unique (st_log st')) + card (set (checked_names evs) - st_seen st)
       = length (filter is_not_unique (st_log st)) + length (checked_names evs)"
proof (induction evs arbitrary: st)
  case Nil
  then show ?case by auto
next
  case (Cons ev evs)
  show ?case
  proof (cases ev)
    case (Csv_Error n)
    with Cons.prems show ?thesis by auto
  next
    case (Row n r)
    let ?progress = "if n mod 100 = 0 then [(INFO, Processed_rows n)] else []"
    have pr: "filter is_not_unique ?progress = []" by simp
    show ?thesis
    proof (cases "restkey r")
      case (Some rest)
      note rk = validate_csv_row_restkey[OF Some, of BaseCluster n "st_seen st"]
      have nc: "name_checked r = None" using Some by (simp add: name_checked_def)
      show ?thesis
      proof (cases "map_of (cols r) ''cluster_name''")
        case None
        with Cons.prems Row Some rk show ?thesis by (auto simp: Let_def)
      next
        case (Some v)
        from Cons.prems Row rk Some
        have "rows_loop BaseCluster w evs
                \<lparr>st_error = True, st_log = st_log st @ ?progress @ [(ERROR, Row_TypeError n v)],
                 st_seen = st_seen st, st_written = st_written st\<rparr> = (x, st')"
          by (simp add: Let_def)
        from Cons.IH[OF this] Row Some nc \<open>restkey r = Some rest\<close> show ?thesis
          by simp
      qed
    next
      case None
      obtain res lg seen' where v: "validate_csv_row BaseCluster n r (st_seen st) = ((res, lg), seen')"
        by (metis prod.exhaust)
      from validate_csv_row_no_restkey(3)[OF None, of BaseCluster n "st_seen st"] v
      obtain clus b where res: "res = Inr (clus, b)" by auto
      from BaseCluster_row_step(1)[OF None, of n "st_seen st"] v
      have s': "seen' = (case name_checked r of Some v \<Rightarrow> insert v (st_seen st) | None \<Rightarrow> st_seen st)"
        by simp
      from BaseCluster_row_step(2)[OF None, of n "st_seen st"] v
      have l': "length (filter is_not_unique lg) =
           (case name_checked r of Some v \<Rightarrow> if v \<in> st_seen st then 1 else 0 | None \<Rightarrow> 0)"
        by (simp split: option.splits)
      obtain st2 where st2: "rows_loop BaseCluster w evs st2 = (x, st')"
        and st2_seen: "st_seen st2 = seen'"
        and st2_log: "st_log st2 = st_log st @ ?progress @ lg"
        using Cons.prems Row v res by (auto simp: Let_def)
      note ih = Cons.IH[OF st2]
      show ?thesis
      proof (cases "name_checked r")
        case None
        with ih s' l' st2_seen st2_log Row \<open>restkey r = None\<close> show ?thesis
          by simp
      next
        case (Some v)
        have fin: "finite (set (checked_names evs) - insert v (st_seen st))" by simp
        have cn: "checked_names (ev # evs) = v # checked_names evs"
          using Row Some \<open>restkey r = None\<close> by simp
        show ?thesis
        proof (cases "v \<in> st_seen st")
          case True
          then have "insert v (st_seen st) = st_seen st"
            and "insert v (set (checked_names evs)) - st_seen st = set (checked_names evs) - st_seen st"
            by auto
          with ih s' l' st2_seen st2_log Some True cn show ?thesis
            by auto
        next
          case False
          then have "insert v (set (checked_names evs)) - st_seen st
               = insert v (set (checked_names evs) - insert v (st_seen st))"
            by auto
          then have "card (insert v (set (checked_names evs)) - st_seen st)
               = Suc (card (set (checked_names evs) - insert v (st_seen st)))"
            using fin by simp
          with ih s' l' st2_seen st2_log Some False cn show ?thesis
            by auto
        qed
      qed
    qed
  qed
qed



















text \<open>
  The tracker belongs to the type \<^verbatim>\<open>ClusterName\<close>, not to a field: in a schema with two
  fields of that type, a name that occurs for the first time in the second field is
  refused when the first field has it.
\<close>

lemma two_fields_share_tracker:
  "validate_csv_row two_names_model 2 two_names_row {} =
     ((Inr (None, True),
       [(ERROR, Row_validation_error 2 ''cluster a'' ''peer_name'' (not_unique_msg ''a'')
                  (InCell (Some ''a'')))]), {''a''})"
  by code_simp


lemma validate_annotation_mono: "seen \<subseteq> snd (validate_annotation a seen c)"
  by (cases a)
     (auto simp: validate_ClusterName_def nested_def Let_def split: option.splits)

lemma validate_fields_mono: "seen \<subseteq> snd (validate_fields fs d seen)"
proof (induction fs arbitrary: seen)
  case Nil
  then show ?case by simp
next
  case (Cons nf fs)
  obtain name f where nf: "nf = (name, f)" by (cases nf)
  show ?case
  proof (cases "map_of d name")
    case None
    with Cons.IH[of seen] show ?thesis
      unfolding nf by (auto split: prod.splits option.splits)
  next
    case (Some c)
    obtain res s1 where va: "validate_annotation (annotation f) seen c = (res, s1)"
      by (metis prod.exhaust)
    from validate_annotation_mono[of seen "annotation f" c] va have "seen \<subseteq> s1" by simp
    with Cons.IH[of s1] Some va show ?thesis
      unfolding nf by (auto split: prod.splits sum.splits)
  qed
qed

lemma validate_csv_row_mono: "seen \<subseteq> snd (validate_csv_row m n r seen)"
proof (cases "restkey r")
  case None
  from validate_csv_row_no_restkey(2)[OF None, of m n seen] validate_fields_mono
  show ?thesis by simp
next
  case (Some rest)
  from validate_csv_row_restkey[OF Some, of m n seen] show ?thesis
    by (simp split: option.splits)
qed

lemma rows_loop_mono:
  "rows_loop m w evs st = (x, st') \<Longrightarrow> st_seen st \<subseteq> st_seen st'"
proof (induction evs arbitrary: st)
  case Nil
  then show ?case by auto
next
  case (Cons ev evs)
  show ?case
  proof (cases ev)
    case (Csv_Error n)
    with Cons.prems show ?thesis by auto
  next
    case (Row n r)
    obtain res lg seen' where v: "validate_csv_row m n r (st_seen st) = ((res, lg), seen')"
      by (metis prod.exhaust)
    from validate_csv_row_mono[of "st_seen st" m n r] v have sub: "st_seen st \<subseteq> seen'"
      by simp
    show ?thesis
    proof (cases res)
      case (Inl e)
      with Cons.prems Row v sub show ?thesis by (auto simp: Let_def)
    next
      case (Inr b)
      obtain clus row_error where b: "b = (clus, row_error)" by (cases b)
      obtain st2 where "rows_loop m w evs st2 = (x, st')" and "st_seen st2 = seen'"
        using Cons.prems Row v Inr b by (auto simp: Let_def)
      with Cons.IH[of st2] sub show ?thesis by auto
    qed
  qed
qed

lemma rows_loop_mono_init:
  "rows_loop m w evs \<lparr>st_error = e, st_log = lg, st_seen = seen, st_written = []\<rparr> = (x, st')
     \<Longrightarrow> seen \<subseteq> st_seen st'"
  using rows_loop_mono[of m w evs "\<lparr>st_error = e, st_log = lg, st_seen = seen, st_written = []\<rparr>" x st']
  by simp

lemma run_mono: "seen \<subseteq> seen_after (run c seen)"
  unfolding run_def
  by (simp add: Let_def split: prod.split sum.split option.split)
     (blast dest: rows_loop_mono_init)


lemma run_BaseCluster_seen:
  assumes "validator_module c = No_module" and "source_opens c"
    and "header c = Fieldnames (Some fieldnames)" and "fieldnames \<noteq> []"
    and "outfile c \<noteq> Output_does_not_open"
  shows "seen_after (run c seen) = seen \<union> set (checked_names (lines c))"
proof -
  have "\<exists>w lg3. setup_csv_writer (outfile c) = (Inr w, lg3)"
    using assms(5) by (cases "outfile c") (auto simp: setup_csv_writer_def)
  then obtain w lg3 where w: "setup_csv_writer (outfile c) = (Inr w, lg3)"
    by blast
  have "\<exists>e lg2. validate_csv_fields BaseCluster (header c) = (Inr e, lg2)"
    using assms(3,4) by (simp add: validate_csv_fields_def fields_loop_eq)
  then obtain e lg2 where v: "validate_csv_fields BaseCluster (header c) = (Inr e, lg2)"
    by blast
  obtain x st' where l: "rows_loop BaseCluster w (lines c)
      \<lparr>st_error = e, st_log = ([] @ [(DEBUG, Using_source_file)]) @ lg2 @ lg3,
        st_seen = seen, st_written = []\<rparr> = (x, st')"
    by (metis prod.exhaust)
  from BaseCluster_loop[OF l] have s: "st_seen st' = seen \<union> set (checked_names (lines c))"
    by simp
  from assms(1,2) w v l s show ?thesis
    by (cases x) (simp_all add: run_def load_model_dynamic_def)
qed

text \<open>
  Claim C2, as the code has it. The tracker is the closure state built when
  \<^verbatim>\<open>model.py\<close> is imported: \<^verbatim>\<open>main\<close>, in a fresh process, runs its session from the
  empty tracker. No session clears it: after \<^verbatim>\<open>run\<close> the tracker holds all it held
  before, and for the built-in schema exactly that and the names checked in the
  session. A row validated against the tracker a session left, with a name that
  tracker holds, gets the \<^verbatim>\<open>not unique\<close> error.
\<close>

theorem C2_tracker_lifetime:
  "main c = run c {}
   \<and> seen \<subseteq> seen_after (run c seen)
   \<and> (validator_module c = No_module \<and> source_opens c \<and> header c = Fieldnames (Some fieldnames)
        \<and> fieldnames \<noteq> [] \<and> outfile c \<noteq> Output_does_not_open \<longrightarrow>
        seen_after (run c seen) = seen \<union> set (checked_names (lines c)))
   \<and> (name_checked r = Some v \<and> v \<in> seen_after (run c seen) \<longrightarrow>
        filter is_not_unique (snd (fst (validate_csv_row BaseCluster n r (seen_after (run c seen))))) =
          [(ERROR, Row_validation_error n (cluster_descr r) ''cluster_name'' (not_unique_msg v)
                     (InCell (the (map_of (cols r) ''cluster_name''))))])"
proof -
  have 1: "main c = run c {}"
    by (simp add: main_def ClusterName_seen_def unique_def)
  have 3: "seen_after (run c seen) = seen \<union> set (checked_names (lines c))"
    if "validator_module c = No_module" "source_opens c" "header c = Fieldnames (Some fieldnames)"
       "fieldnames \<noteq> []" "outfile c \<noteq> Output_does_not_open"
    using run_BaseCluster_seen[OF that] .
  have 4: "filter is_not_unique (snd (fst (validate_csv_row BaseCluster n r (seen_after (run c seen))))) =
          [(ERROR, Row_validation_error n (cluster_descr r) ''cluster_name'' (not_unique_msg v)
                     (InCell (the (map_of (cols r) ''cluster_name''))))]"
    if nc: "name_checked r = Some v" and v: "v \<in> seen_after (run c seen)"
  proof -
    from nc have rk: "restkey r = None"
      by (simp add: name_checked_def split: option.splits)
    from BaseCluster_row_step(2)[OF rk, of n "seen_after (run c seen)"] nc v show ?thesis
      by simp
  qed
  from 1 run_mono 3 4 show ?thesis by blast
qed

lemma one_row_first: "run one_row_csv {} =
    \<lparr>returned = Inr 0,
      logged = [(DEBUG, Using_source_file), (DEBUG, Reached_end_of_CSV), (INFO, CSV_is_valid)],
      seen_after = {''a''}, out_file = None\<rparr>"
  by code_simp

lemma one_row_second: "run one_row_csv {''a''} =
    \<lparr>returned = Inr (- 1),
      logged = [(DEBUG, Using_source_file),
                (ERROR, Row_validation_error 2 ''cluster a'' ''cluster_name'' (not_unique_msg ''a'')
                          (InCell (Some ''a''))),
                (DEBUG, Reached_end_of_CSV), (INFO, CSV_is_invalid)],
      seen_after = {''a''}, out_file = None\<rparr>"
  by code_simp

theorem C2_tracker_lifetime_witness:
  "(validator_module one_row_csv = No_module \<and> source_opens one_row_csv
      \<and> header one_row_csv = Fieldnames (Some header3) \<and> header3 \<noteq> []
      \<and> outfile one_row_csv \<noteq> Output_does_not_open
      \<and> name_checked (DictReader_row header3 [''a'', ''g'', []]) = Some ''a'')
   \<and> checked_names (lines one_row_csv) = [''a'']
   \<and> seen_after (run one_row_csv {}) = {''a''}
   \<and> filter is_not_unique
        (snd (fst (validate_csv_row BaseCluster 2 (DictReader_row header3 [''a'', ''g'', []])
                     (seen_after (run one_row_csv {}))))) =
        [(ERROR, Row_validation_error 2 (cluster_descr (DictReader_row header3 [''a'', ''g'', []]))
                   ''cluster_name'' (not_unique_msg ''a'')
                   (InCell (the (map_of (cols (DictReader_row header3 [''a'', ''g'', []])) ''cluster_name''))))]"
proof -
  let ?r = "DictReader_row header3 [''a'', ''g'', []]"
  have h: "validator_module one_row_csv = No_module \<and> source_opens one_row_csv
      \<and> header one_row_csv = Fieldnames (Some header3) \<and> header3 \<noteq> []
      \<and> outfile one_row_csv \<noteq> Output_does_not_open"
    by (simp add: one_row_csv_def header3_def)
  have nc: "name_checked ?r = Some ''a''"
    by code_simp
  have cn: "checked_names (lines one_row_csv) = [''a'']"
    by code_simp
  note inst = C2_tracker_lifetime[of one_row_csv "{}" header3 "?r" "''a''" 2]
  from inst h cn have sa: "seen_after (run one_row_csv {}) = {''a''}"
    by simp
  with inst nc have "filter is_not_unique
        (snd (fst (validate_csv_row BaseCluster 2 ?r (seen_after (run one_row_csv {}))))) =
        [(ERROR, Row_validation_error 2 (cluster_descr ?r) ''cluster_name'' (not_unique_msg ''a'')
                   (InCell (the (map_of (cols ?r) ''cluster_name''))))]"
    by simp
  with h nc cn sa show ?thesis by blast
qed

text \<open>
  Claim C2 as stated, for two sessions run one after another in one process: the
  same one-row source validated twice. The first session returns 0; the second
  starts from the tracker the first left, rejects the name at its first occurrence
  and returns -1.
\<close>

theorem C2_second_session_counterexample:
  "returned (main one_row_csv) = Inr 0
   \<and> seen_after (main one_row_csv) = {''a''}
   \<and> returned (run one_row_csv (seen_after (main one_row_csv))) = Inr (- 1)
   \<and> logged (run one_row_csv (seen_after (main one_row_csv))) =
       [(DEBUG, Using_source_file),
        (ERROR, Row_validation_error 2 ''cluster a'' ''cluster_name'' (not_unique_msg ''a'')
                  (InCell (Some ''a''))),
        (DEBUG, Reached_end_of_CSV), (INFO, CSV_is_invalid)]"
  by (simp add: main_def ClusterName_seen_def unique_def one_row_first one_row_second)

end
